theory Spec2Isabelle
  imports Main "HOL-Library.Word"
begin

section \<open>The logging subsystem (logging.h, logging.c)\<close>

text \<open>
  A shallow embedding of the C logging module. The four file-scope variables of
  \<^verbatim>\<open>logging.c\<close> become the fields of a record; every library call the module makes
  (\<^verbatim>\<open>fprintf\<close>, \<^verbatim>\<open>fflush\<close>, \<^verbatim>\<open>pthread_mutex_lock\<close>, ...) is a state transformer
  that appends an event to a trace, so that "nothing was written" and "no lock was
  taken" are statements about the trace. A call either returns (\<open>Done\<close>), has to wait
  for a mutex that is held (\<open>Blocked\<close>: run alone it waits for ever, among threads
  it waits for its turn), or leaves the behaviour C defines (\<open>Undefined\<close>, with the
  reason).
\<close>

subsection \<open>Constants of logging.h\<close>

text \<open>The macros are \<^verbatim>\<open>int\<close> constants; a level is an \<^verbatim>\<open>unsigned short\<close>, promoted
  to \<^verbatim>\<open>int\<close> (\<open>uint\<close>) wherever it is compared or printed.\<close>

type_synonym ushort = "16 word"

definition LOGGING_LEVEL_NONE :: int where "LOGGING_LEVEL_NONE = 0"
definition LOGGING_LEVEL_CRITICAL :: int where "LOGGING_LEVEL_CRITICAL = 1"
definition LOGGING_LEVEL_ERROR :: int where "LOGGING_LEVEL_ERROR = 100"
definition LOGGING_LEVEL_WARNING :: int where "LOGGING_LEVEL_WARNING = 1000"
definition LOGGING_LEVEL_INFO :: int where "LOGGING_LEVEL_INFO = 10000"
definition LOGGING_LEVEL_DEBUG :: int where "LOGGING_LEVEL_DEBUG = 50000"
definition LOGGING_LEVEL_ALL :: int where "LOGGING_LEVEL_ALL = 65535"

subsection \<open>Streams, mutexes and the trace of library calls\<close>

text \<open>A \<^verbatim>\<open>FILE *\<close> is \<open>FILE option\<close> and a \<^verbatim>\<open>pthread_mutex_t *\<close> is \<open>nat option\<close>
  (the address of the mutex object); \<open>None\<close> is \<^verbatim>\<open>NULL\<close>.\<close>

datatype FILE = stdout | stderr | stream nat

datatype event =
    Write FILE string
  | Flush FILE
  | Mutex_init nat
  | Mutex_lock nat
  | Mutex_unlock nat

datatype fault =
    Null_stream
  | Null_mutex
  | Uninitialised_mutex
  | Unlock_of_unlocked_mutex
  | Null_tm
  | Signed_overflow
  | Bad_format

datatype 'a outcome = Done 'a | Blocked | Undefined fault

text \<open>The broken-down time \<^verbatim>\<open>struct tm\<close>, with the fields \<^verbatim>\<open>timestamp_print\<close> reads.\<close>

record tm =
  tm_sec :: int
  tm_min :: int
  tm_hour :: int
  tm_mday :: int
  tm_mon :: int
  tm_year :: int

text \<open>The state: \<^verbatim>\<open>_level\<close>, \<^verbatim>\<open>_timestamp_printed\<close>, \<^verbatim>\<open>_destination\<close> and
  \<^verbatim>\<open>print_mutex\<close> (an identifier cannot start with an underscore here, hence the
  prefix), the mutex objects that have been initialised (\<open>True\<close>: locked), and the
  trace of library calls so far, oldest first.\<close>

record logger =
  g_level :: ushort
  g_timestamp_printed :: "8 word"
  g_destination :: "FILE option"
  g_print_mutex :: "nat option"
  mutexes :: "nat \<rightharpoonup> bool"
  trace :: "event list"

text \<open>The static initialisers: \<^verbatim>\<open>_level = 0\<close>, \<^verbatim>\<open>_timestamp_printed = 1\<close>,
  \<^verbatim>\<open>_destination = NULL\<close>; \<^verbatim>\<open>print_mutex\<close> has none and is zero-initialised.\<close>

definition initial_state :: logger where
  "initial_state =
     \<lparr>g_level = 0, g_timestamp_printed = 1, g_destination = None, g_print_mutex = None,
      mutexes = Map.empty, trace = []\<rparr>"

definition emit :: "event \<Rightarrow> logger \<Rightarrow> logger" where
  "emit e s = s\<lparr>trace := trace s @ [e]\<rparr>"

text \<open>Statements in sequence; the first one that does not return ends the call.\<close>

fun seq :: "(logger \<Rightarrow> logger outcome) list \<Rightarrow> logger \<Rightarrow> logger outcome" where
  "seq [] s = Done s"
| "seq (c # cs) s =
     (case c s of Done s' \<Rightarrow> seq cs s' | Blocked \<Rightarrow> Blocked | Undefined f \<Rightarrow> Undefined f)"

definition fprintf :: "FILE option \<Rightarrow> string \<Rightarrow> logger \<Rightarrow> logger outcome" where
  "fprintf fp text s =
     (case fp of None \<Rightarrow> Undefined Null_stream | Some f \<Rightarrow> Done (emit (Write f text) s))"

definition fflush :: "FILE option \<Rightarrow> logger \<Rightarrow> logger outcome" where
  "fflush fp s =
     (case fp of None \<Rightarrow> Undefined Null_stream | Some f \<Rightarrow> Done (emit (Flush f) s))"

definition pthread_mutex_init :: "nat option \<Rightarrow> logger \<Rightarrow> logger outcome" where
  "pthread_mutex_init mp s =
     (case mp of
        None \<Rightarrow> Undefined Null_mutex
      | Some m \<Rightarrow> Done (emit (Mutex_init m) (s\<lparr>mutexes := (mutexes s)(m \<mapsto> False)\<rparr>)))"

definition pthread_mutex_lock :: "nat option \<Rightarrow> logger \<Rightarrow> logger outcome" where
  "pthread_mutex_lock mp s =
     (case mp of
        None \<Rightarrow> Undefined Null_mutex
      | Some m \<Rightarrow>
          (case mutexes s m of
             None \<Rightarrow> Undefined Uninitialised_mutex
           | Some True \<Rightarrow> Blocked
           | Some False \<Rightarrow> Done (emit (Mutex_lock m) (s\<lparr>mutexes := (mutexes s)(m \<mapsto> True)\<rparr>))))"

definition pthread_mutex_unlock :: "nat option \<Rightarrow> logger \<Rightarrow> logger outcome" where
  "pthread_mutex_unlock mp s =
     (case mp of
        None \<Rightarrow> Undefined Null_mutex
      | Some m \<Rightarrow>
          (case mutexes s m of
             None \<Rightarrow> Undefined Uninitialised_mutex
           | Some False \<Rightarrow> Undefined Unlock_of_unlocked_mutex
           | Some True \<Rightarrow> Done (emit (Mutex_unlock m) (s\<lparr>mutexes := (mutexes s)(m \<mapsto> False)\<rparr>))))"

subsection \<open>The conversions of the format strings the module uses\<close>

definition digit_char :: "nat \<Rightarrow> char" where
  "digit_char d = ''0123456789'' ! d"

fun digits :: "nat \<Rightarrow> string" where
  "digits n = (if n < 10 then [digit_char n] else digits (n div 10) @ [digit_char (n mod 10)])"

declare digits.simps [simp del]

text \<open>\<^verbatim>\<open>%d\<close>, and \<^verbatim>\<open>%0wd\<close>: at least \<open>w\<close> characters, zeros after the sign.\<close>

definition fmt_d :: "int \<Rightarrow> string" where
  "fmt_d n = (if n < 0 then ''-'' @ digits (nat (- n)) else digits (nat n))"

definition fmt_0d :: "nat \<Rightarrow> int \<Rightarrow> string" where
  "fmt_0d w n =
     (if n < 0
      then ''-'' @ replicate (w - 1 - length (digits (nat (- n)))) (CHR ''0'') @ digits (nat (- n))
      else replicate (w - length (digits (nat n))) (CHR ''0'') @ digits (nat n))"

definition INT_MAX :: int where "INT_MAX = 2147483647"

definition newline :: string where "newline = [CHR 0x0A]"

subsection \<open>logging.c\<close>

text \<open>\<^verbatim>\<open>logging_init\<close>. The argument is what \<^verbatim>\<open>malloc\<close> returned.\<close>

definition logging_init :: "nat option \<Rightarrow> logger \<Rightarrow> logger outcome" where
  "logging_init malloc_result =
     seq [\<lambda>s. Done (s\<lparr>g_destination := Some stdout\<rparr>),
          \<lambda>s. Done (s\<lparr>g_level := word_of_int LOGGING_LEVEL_ALL\<rparr>),
          \<lambda>s. Done (s\<lparr>g_print_mutex := malloc_result\<rparr>),
          \<lambda>s. pthread_mutex_init (g_print_mutex s) s]"

text \<open>\<^verbatim>\<open>timestamp_print\<close>. The argument is the \<^verbatim>\<open>struct tm\<close> that \<^verbatim>\<open>tm\<close> points to after
  \<^verbatim>\<open>malloc\<close>, \<^verbatim>\<open>time\<close> and \<^verbatim>\<open>localtime_r\<close>; \<open>None\<close> when that pointer is \<^verbatim>\<open>NULL\<close>.\<close>

definition timestamp_text :: "tm \<Rightarrow> string" where
  "timestamp_text t =
     fmt_0d 2 (tm_mday t) @ ''.'' @ fmt_0d 2 (tm_mon t) @ ''.'' @ fmt_0d 4 (tm_year t + 1900)
     @ ''/'' @ fmt_0d 2 (tm_hour t) @ '':'' @ fmt_0d 2 (tm_min t) @ '':'' @ fmt_0d 2 (tm_sec t)"

definition timestamp_print :: "tm option \<Rightarrow> logger \<Rightarrow> logger outcome" where
  "timestamp_print now s =
     (case now of
        None \<Rightarrow> Undefined Null_tm
      | Some t \<Rightarrow>
          if tm_year t + 1900 > INT_MAX then Undefined Signed_overflow
          else fprintf (g_destination s) (timestamp_text t) s)"

definition logging_set_level :: "ushort \<Rightarrow> logger \<Rightarrow> logger" where
  "logging_set_level level s = s\<lparr>g_level := level\<rparr>"

definition logging_get_level :: "logger \<Rightarrow> ushort" where
  "logging_get_level s = g_level s"

definition logging_set_destination :: "FILE option \<Rightarrow> logger \<Rightarrow> logger" where
  "logging_set_destination destination s =
     (if destination \<noteq> None then s\<lparr>g_destination := destination\<rparr> else s)"

definition logging_get_destination :: "logger \<Rightarrow> FILE option" where
  "logging_get_destination s = g_destination s"

definition logging_set_timestamp_printed :: "8 word \<Rightarrow> logger \<Rightarrow> logger" where
  "logging_set_timestamp_printed timestamp_printed s =
     s\<lparr>g_timestamp_printed := timestamp_printed\<rparr>"

text \<open>\<^verbatim>\<open>vfprintf\<close> is the C library's: \<open>vformat message arglist\<close> is the text it renders,
  \<open>None\<close> where the format and the arguments do not fit and C defines nothing.\<close>

definition vfprintf ::
  "(string \<Rightarrow> 'a \<Rightarrow> string option) \<Rightarrow> FILE option \<Rightarrow> string \<Rightarrow> 'a \<Rightarrow> logger \<Rightarrow> logger outcome"
where
  "vfprintf vformat fp message arglist s =
     (case vformat message arglist of
        None \<Rightarrow> Undefined Bad_format
      | Some text \<Rightarrow> fprintf fp text s)"

text \<open>\<^verbatim>\<open>logging_log\<close>. \<open>now\<close> is the local time \<^verbatim>\<open>timestamp_print\<close> would read.\<close>

definition logging_log ::
  "(string \<Rightarrow> 'a \<Rightarrow> string option) \<Rightarrow> tm option \<Rightarrow>
   string \<Rightarrow> ushort \<Rightarrow> string \<Rightarrow> 'a \<Rightarrow> logger \<Rightarrow> logger outcome"
where
  "logging_log vformat now module level message arglist s =
     (if uint level \<le> uint (g_level s) then
        seq [\<lambda>s. pthread_mutex_lock (g_print_mutex s) s,
             \<lambda>s. if uint level \<ge> LOGGING_LEVEL_DEBUG then
                    fprintf (g_destination s) (''['' @ fmt_d (uint level) @ '':DEBUG'') s
                  else if uint level \<ge> LOGGING_LEVEL_INFO then
                    fprintf (g_destination s) (''['' @ fmt_d (uint level) @ '':INFO'') s
                  else if uint level \<ge> LOGGING_LEVEL_WARNING then
                    fprintf (g_destination s) (''['' @ fmt_d (uint level) @ '':WARNING'') s
                  else if uint level \<ge> LOGGING_LEVEL_ERROR then
                    fprintf (g_destination s) (''['' @ fmt_d (uint level) @ '':ERROR'') s
                  else
                    fprintf (g_destination s) (''['' @ fmt_d (uint level) @ '':CRITICAL'') s,
             \<lambda>s. if g_timestamp_printed s \<noteq> 0 then
                    seq [\<lambda>s. fprintf (g_destination s) ''@'' s,
                         \<lambda>s. timestamp_print now s] s
                  else Done s,
             \<lambda>s. fprintf (g_destination s) ''] '' s,
             \<lambda>s. fprintf (g_destination s) (module @ '': '') s,
             \<lambda>s. vfprintf vformat (g_destination s) message arglist s,
             \<lambda>s. fprintf (g_destination s) newline s,
             \<lambda>s. pthread_mutex_unlock (g_print_mutex s) s,
             \<lambda>s. fflush (g_destination s) s] s
      else Done s)"

text \<open>\<^verbatim>\<open>logging_aquire_fd\<close> and \<^verbatim>\<open>logging_release_fd\<close>. The framing calls pass no
  variadic argument: \<open>no_args\<close> is the empty argument list of the formatter.\<close>

definition logging_aquire_fd ::
  "(string \<Rightarrow> 'a \<Rightarrow> string option) \<Rightarrow> 'a \<Rightarrow> tm option \<Rightarrow>
   ushort \<Rightarrow> logger \<Rightarrow> (FILE option \<times> logger) outcome"
where
  "logging_aquire_fd vformat no_args now level s =
     (if uint level \<le> uint (g_level s) then
        (case seq [logging_log vformat now ''Logging'' level
                     ''*** External logging started...'' no_args,
                   \<lambda>s. pthread_mutex_lock (g_print_mutex s) s] s of
           Done s' \<Rightarrow> Done (g_destination s', s')
         | Blocked \<Rightarrow> Blocked
         | Undefined f \<Rightarrow> Undefined f)
      else Done (None, s))"

definition logging_release_fd ::
  "(string \<Rightarrow> 'a \<Rightarrow> string option) \<Rightarrow> 'a \<Rightarrow> tm option \<Rightarrow>
   ushort \<Rightarrow> logger \<Rightarrow> logger outcome"
where
  "logging_release_fd vformat no_args now level =
     seq [\<lambda>s. pthread_mutex_unlock (g_print_mutex s) s,
          logging_log vformat now ''Logging'' level ''*** External logging ended...'' no_args]"

subsection \<open>Two threads\<close>

text \<open>
  For calls that run at the same time, the body of \<^verbatim>\<open>logging_log\<close> once more, cut into the
  steps a thread takes one at a time: a \<open>Call\<close> is one library call, a \<open>Cond\<close> is one
  test of a variable another thread could write. \<open>run\<close> executes such a program alone,
  and for \<open>logging_log_prog\<close> that is \<^verbatim>\<open>logging_log\<close> (lemma \<open>run_logging_log_prog\<close>).
  \<open>step\<close> takes the first step only. \<open>interleave\<close> runs two threads under a schedule,
  a list that names whose turn it is (\<open>True\<close>: the first thread); a thread whose turn
  comes while it waits for the mutex stays where it is, and so does one that has finished.
\<close>

datatype stmt = Call "logger \<Rightarrow> logger outcome" | Cond "logger \<Rightarrow> bool" "stmt list"

fun run :: "stmt list \<Rightarrow> logger \<Rightarrow> logger outcome" where
  "run [] s = Done s"
| "run (Call c # p) s =
     (case c s of Done s' \<Rightarrow> run p s' | Blocked \<Rightarrow> Blocked | Undefined x \<Rightarrow> Undefined x)"
| "run (Cond b body # p) s =
     (if b s then
        (case run body s of
           Done s' \<Rightarrow> run p s' | Blocked \<Rightarrow> Blocked | Undefined x \<Rightarrow> Undefined x)
      else run p s)"

fun step :: "stmt list \<Rightarrow> logger \<Rightarrow> (stmt list \<times> logger) outcome" where
  "step [] s = Done ([], s)"
| "step (Call c # p) s =
     (case c s of Done s' \<Rightarrow> Done (p, s') | Blocked \<Rightarrow> Blocked | Undefined x \<Rightarrow> Undefined x)"
| "step (Cond b body # p) s = Done (if b s then body @ p else p, s)"

fun interleave ::
  "bool list \<Rightarrow> stmt list \<Rightarrow> stmt list \<Rightarrow> logger \<Rightarrow> (stmt list \<times> stmt list \<times> logger) outcome"
where
  "interleave [] p q s = Done (p, q, s)"
| "interleave (True # sch) p q s =
     (case step p s of
        Done (p', s') \<Rightarrow> interleave sch p' q s'
      | Blocked \<Rightarrow> interleave sch p q s
      | Undefined x \<Rightarrow> Undefined x)"
| "interleave (False # sch) p q s =
     (case step q s of
        Done (q', s') \<Rightarrow> interleave sch p q' s'
      | Blocked \<Rightarrow> interleave sch p q s
      | Undefined x \<Rightarrow> Undefined x)"

definition logging_log_prog ::
  "(string \<Rightarrow> 'a \<Rightarrow> string option) \<Rightarrow> tm option \<Rightarrow>
   string \<Rightarrow> ushort \<Rightarrow> string \<Rightarrow> 'a \<Rightarrow> stmt list"
where
  "logging_log_prog vformat now module level message arglist =
     [Cond (\<lambda>s. uint level \<le> uint (g_level s))
        [Call (\<lambda>s. pthread_mutex_lock (g_print_mutex s) s),
         Call (\<lambda>s. if uint level \<ge> LOGGING_LEVEL_DEBUG then
                    fprintf (g_destination s) (''['' @ fmt_d (uint level) @ '':DEBUG'') s
                  else if uint level \<ge> LOGGING_LEVEL_INFO then
                    fprintf (g_destination s) (''['' @ fmt_d (uint level) @ '':INFO'') s
                  else if uint level \<ge> LOGGING_LEVEL_WARNING then
                    fprintf (g_destination s) (''['' @ fmt_d (uint level) @ '':WARNING'') s
                  else if uint level \<ge> LOGGING_LEVEL_ERROR then
                    fprintf (g_destination s) (''['' @ fmt_d (uint level) @ '':ERROR'') s
                  else
                    fprintf (g_destination s) (''['' @ fmt_d (uint level) @ '':CRITICAL'') s),
         Cond (\<lambda>s. g_timestamp_printed s \<noteq> 0)
           [Call (\<lambda>s. fprintf (g_destination s) ''@'' s),
            Call (\<lambda>s. timestamp_print now s)],
         Call (\<lambda>s. fprintf (g_destination s) ''] '' s),
         Call (\<lambda>s. fprintf (g_destination s) (module @ '': '') s),
         Call (\<lambda>s. vfprintf vformat (g_destination s) message arglist s),
         Call (\<lambda>s. fprintf (g_destination s) newline s),
         Call (\<lambda>s. pthread_mutex_unlock (g_print_mutex s) s),
         Call (\<lambda>s. fflush (g_destination s) s)]]"

section \<open>Vocabulary of the statements\<close>

text \<open>The label in the tag, as the if-chain of \<^verbatim>\<open>logging_log\<close> chooses it.\<close>

definition tier_label :: "int \<Rightarrow> string" where
  "tier_label v =
     (if v \<ge> LOGGING_LEVEL_DEBUG then ''DEBUG''
      else if v \<ge> LOGGING_LEVEL_INFO then ''INFO''
      else if v \<ge> LOGGING_LEVEL_WARNING then ''WARNING''
      else if v \<ge> LOGGING_LEVEL_ERROR then ''ERROR''
      else ''CRITICAL'')"

text \<open>The library calls of one \<^verbatim>\<open>logging_log\<close> that passes the filter, in order;
  \<open>stamp\<close> is the timestamp text, \<open>None\<close> when no timestamp is printed.\<close>

definition log_events ::
  "FILE \<Rightarrow> nat \<Rightarrow> string option \<Rightarrow> string \<Rightarrow> ushort \<Rightarrow> string \<Rightarrow> event list" where
  "log_events f m stamp module level body =
     [Mutex_lock m, Write f (''['' @ fmt_d (uint level) @ '':'' @ tier_label (uint level))]
     @ (case stamp of None \<Rightarrow> [] | Some text \<Rightarrow> [Write f ''@'', Write f text])
     @ [Write f ''] '', Write f (module @ '': ''), Write f body, Write f newline,
        Mutex_unlock m, Flush f]"

definition stamp_of :: "8 word \<Rightarrow> tm \<Rightarrow> string option" where
  "stamp_of flag t = (if flag \<noteq> 0 then Some (timestamp_text t) else None)"

text \<open>When the timestamp flag is set, the time could be read (\<open>now\<close> is \<open>t\<close>) and
  \<^verbatim>\<open>tm_year + 1900\<close> fits an \<^verbatim>\<open>int\<close>.\<close>

definition clock_ok :: "8 word \<Rightarrow> tm option \<Rightarrow> tm \<Rightarrow> bool" where
  "clock_ok flag now t = (flag = 0 \<or> now = Some t \<and> tm_year t + 1900 \<le> INT_MAX)"

text \<open>The logger writes to \<open>f\<close>, its mutex \<open>m\<close> is initialised and nobody holds it.\<close>

definition ready :: "logger \<Rightarrow> FILE \<Rightarrow> nat \<Rightarrow> bool" where
  "ready s f m =
     (g_destination s = Some f \<and> g_print_mutex s = Some m \<and> mutexes s m = Some False)"

text \<open>The bytes a trace writes to the stream \<open>f\<close>.\<close>

fun written :: "FILE \<Rightarrow> event list \<Rightarrow> string" where
  "written f [] = []"
| "written f (Write g text # es) = (if g = f then text @ written f es else written f es)"
| "written f (e # es) = written f es"

text \<open>The output format of the specification:
  \<^verbatim>\<open>[<severity-int>:<TIER>[@<timestamp>]] <module>: <formatted body>\n\<close>.\<close>

definition log_line :: "string option \<Rightarrow> string \<Rightarrow> int \<Rightarrow> string \<Rightarrow> string \<Rightarrow> string" where
  "log_line stamp module severity tier body =
     ''['' @ fmt_d severity @ '':'' @ tier
     @ (case stamp of None \<Rightarrow> [] | Some text \<Rightarrow> ''@'' @ text)
     @ ''] '' @ module @ '': '' @ body @ newline"

text \<open>The tiers of the specification, with their lower bounds, and the highest one
  whose lower bound is at most the value.\<close>

definition tier_table :: "(int \<times> string) list" where
  "tier_table =
     [(0, ''CRITICAL''), (100, ''ERROR''), (1000, ''WARNING''), (10000, ''INFO''),
      (50000, ''DEBUG'')]"

definition highest_tier :: "int \<Rightarrow> string option" where
  "highest_tier v =
     (case rev (filter (\<lambda>(lower, name). lower \<le> v) tier_table) of
        [] \<Rightarrow> None
      | (lower, name) # _ \<Rightarrow> Some name)"

text \<open>The timestamp of the specification, \<^verbatim>\<open>DD.MM.YYYY/HH:MM:SS\<close>, written digit by
  digit, and the ranges of a calendar break-down whose year has at most four digits.\<close>

definition two_digits :: "int \<Rightarrow> string" where
  "two_digits n = [digit_char (nat n div 10), digit_char (nat n mod 10)]"

definition four_digits :: "int \<Rightarrow> string" where
  "four_digits n =
     [digit_char (nat n div 1000), digit_char (nat n div 100 mod 10),
      digit_char (nat n div 10 mod 10), digit_char (nat n mod 10)]"

definition dd_mm_yyyy :: "tm \<Rightarrow> string" where
  "dd_mm_yyyy t =
     two_digits (tm_mday t) @ ''.'' @ two_digits (tm_mon t) @ ''.''
     @ four_digits (tm_year t + 1900) @ ''/''
     @ two_digits (tm_hour t) @ '':'' @ two_digits (tm_min t) @ '':'' @ two_digits (tm_sec t)"

definition calendar_time :: "tm \<Rightarrow> bool" where
  "calendar_time t =
     (1 \<le> tm_mday t \<and> tm_mday t \<le> 31 \<and> 0 \<le> tm_mon t \<and> tm_mon t \<le> 11
      \<and> 0 \<le> tm_year t + 1900 \<and> tm_year t + 1900 \<le> 9999
      \<and> 0 \<le> tm_hour t \<and> tm_hour t \<le> 23 \<and> 0 \<le> tm_min t \<and> tm_min t \<le> 59
      \<and> 0 \<le> tm_sec t \<and> tm_sec t \<le> 60)"

text \<open>What a call adds to the output: its line when it passes the filter, nothing
  otherwise.\<close>

definition emitted_line :: "logger \<Rightarrow> tm \<Rightarrow> string \<Rightarrow> ushort \<Rightarrow> string \<Rightarrow> string" where
  "emitted_line s t module level body =
     (if uint level \<le> uint (g_level s)
      then log_line (stamp_of (g_timestamp_printed s) t) module (uint level)
             (tier_label (uint level)) body
      else [])"

text \<open>
  For the proof about two threads. A thread that runs \<open>logging_log_prog\<close> is
  \<open>Before\<close> the test of the level, \<open>Waiting\<close> at \<^verbatim>\<open>pthread_mutex_lock\<close>, \<open>Inside\<close> the
  locked region, \<open>After\<close> it (at \<^verbatim>\<open>fflush\<close>) or \<open>Over\<close>. \<open>same_config s0 s\<close>: the
  four variables of the module are as in \<open>s0\<close>. \<open>emits s0 f p text\<close>: the
  statements \<open>p\<close> only write, to \<open>f\<close>, and \<open>text\<close> in all. \<open>thread_at\<close> gives, for
  each phase, the statements a thread has left and the bytes of its line it has still to
  write. \<open>exclusion\<close> is the invariant: the mutex is locked exactly when one thread is
  \<open>Inside\<close>, never both, and what is written so far, followed by what the threads
  have left, is one line after the other.
\<close>

datatype phase = Before | Waiting | Inside | After | Over

definition same_config :: "logger \<Rightarrow> logger \<Rightarrow> bool" where
  "same_config s0 s =
     (g_level s = g_level s0 \<and> g_timestamp_printed s = g_timestamp_printed s0
      \<and> g_destination s = g_destination s0 \<and> g_print_mutex s = g_print_mutex s0)"

definition lock_call :: stmt where
  "lock_call = Call (\<lambda>s. pthread_mutex_lock (g_print_mutex s) s)"

definition unlock_call :: stmt where
  "unlock_call = Call (\<lambda>s. pthread_mutex_unlock (g_print_mutex s) s)"

definition flush_call :: stmt where
  "flush_call = Call (\<lambda>s. fflush (g_destination s) s)"

inductive emits :: "logger \<Rightarrow> FILE \<Rightarrow> stmt list \<Rightarrow> string \<Rightarrow> bool"
  for s0 :: logger and f :: FILE
where
  silent: "emits s0 f [] []"
| writes: "(\<And>s. same_config s0 s \<Longrightarrow> c s = Done (emit (Write f text) s)) \<Longrightarrow>
         emits s0 f p rest \<Longrightarrow> emits s0 f (Call c # p) (text @ rest)"
| branch: "(\<And>s. same_config s0 s \<Longrightarrow> b s = v) \<Longrightarrow>
         emits s0 f ((if v then body else []) @ p) text \<Longrightarrow>
         emits s0 f (Cond b body # p) text"

inductive thread_at ::
  "logger \<Rightarrow> FILE \<Rightarrow> string \<Rightarrow> stmt list \<Rightarrow> phase \<Rightarrow> string \<Rightarrow> bool"
  for s0 :: logger and f :: FILE and line :: string
where
  before: "(\<And>s. same_config s0 s \<Longrightarrow> b s) \<Longrightarrow> emits s0 f ws line \<Longrightarrow>
           thread_at s0 f line [Cond b (lock_call # ws @ [unlock_call, flush_call])] Before line"
| filtered: "(\<And>s. same_config s0 s \<Longrightarrow> \<not> b s) \<Longrightarrow> line = [] \<Longrightarrow>
           thread_at s0 f line [Cond b body] Before []"
| waiting: "emits s0 f ws line \<Longrightarrow>
           thread_at s0 f line (lock_call # ws @ [unlock_call, flush_call]) Waiting line"
| inside: "emits s0 f ws u \<Longrightarrow>
           thread_at s0 f line (ws @ [unlock_call, flush_call]) Inside u"
| after: "thread_at s0 f line [flush_call] After []"
| over: "thread_at s0 f line [] Over []"

definition serial :: "string \<Rightarrow> string \<Rightarrow> string \<Rightarrow> string \<Rightarrow> bool" where
  "serial before a b w = (w = before @ a @ b \<or> w = before @ b @ a)"

definition exclusion ::
  "logger \<Rightarrow> FILE \<Rightarrow> nat \<Rightarrow> string \<Rightarrow> string \<Rightarrow> stmt list \<Rightarrow> stmt list \<Rightarrow> logger \<Rightarrow> bool"
where
  "exclusion s0 f m lineA lineB p q s =
     (same_config s0 s \<and>
      (\<exists>phA phB todoA todoB.
         thread_at s0 f lineA p phA todoA \<and> thread_at s0 f lineB q phB todoB
         \<and> mutexes s m = Some (phA = Inside \<or> phB = Inside)
         \<and> \<not> (phA = Inside \<and> phB = Inside)
         \<and> (phB \<noteq> Inside \<longrightarrow>
               serial (written f (trace s0)) lineA lineB (written f (trace s) @ todoA @ todoB))
         \<and> (phA \<noteq> Inside \<longrightarrow>
               serial (written f (trace s0)) lineA lineB (written f (trace s) @ todoB @ todoA))))"

text \<open>A formatter for the examples: the C library's rendering of \<^verbatim>\<open>%s\<close>, \<^verbatim>\<open>%d\<close> and
  \<^verbatim>\<open>%%\<close> in a format string; the theorems hold for every formatter.\<close>

datatype arg = Arg_s string | Arg_d int

fun printf_sd :: "string \<Rightarrow> arg list \<Rightarrow> string option" where
  "printf_sd [] args = Some []"
| "printf_sd [c] args = (if c = CHR ''%'' then None else Some [c])"
| "printf_sd (c # d # cs) args =
     (if c \<noteq> CHR ''%'' then map_option ((#) c) (printf_sd (d # cs) args)
      else if d = CHR ''%'' then map_option ((#) d) (printf_sd cs args)
      else if d = CHR ''s'' then
        (case args of Arg_s text # rest \<Rightarrow> map_option ((@) text) (printf_sd cs rest) | _ \<Rightarrow> None)
      else if d = CHR ''d'' then
        (case args of Arg_d n # rest \<Rightarrow> map_option ((@) (fmt_d n)) (printf_sd cs rest) | _ \<Rightarrow> None)
      else None)"

text \<open>The scenario of the specification: \<^verbatim>\<open>init()\<close>, then \<^verbatim>\<open>set_level(WARNING)\<close>;
  the mutex was allocated at address 1. The local time is 3 November 2026, 12:34:56.\<close>

definition scenario_state :: logger where
  "scenario_state =
     \<lparr>g_level = 1000, g_timestamp_printed = 1, g_destination = Some stdout,
      g_print_mutex = Some 1, mutexes = [1 \<mapsto> False], trace = [Mutex_init 1]\<rparr>"

definition scenario_time :: tm where
  "scenario_time =
     \<lparr>tm_sec = 56, tm_min = 34, tm_hour = 12, tm_mday = 3, tm_mon = 10, tm_year = 126\<rparr>"

section \<open>Basic facts\<close>

lemma scenario_state_reached:
  "\<exists>s. logging_init (Some 1) initial_state = Done s \<and>
       logging_set_level (word_of_int LOGGING_LEVEL_WARNING) s = scenario_state"
  by (simp add: logging_init_def initial_state_def pthread_mutex_init_def emit_def
      logging_set_level_def scenario_state_def LOGGING_LEVEL_ALL_def LOGGING_LEVEL_WARNING_def)

lemma written_append: "written f (xs @ ys) = written f xs @ written f ys"
  by (induction f xs rule: written.induct) simp_all

lemma written_log_events:
  "written f (log_events f m stamp module level body) =
   log_line stamp module (uint level) (tier_label (uint level)) body"
  by (simp add: log_events_def log_line_def split: option.split)

lemma logging_log_dropped:
  "uint (g_level s) < uint level \<Longrightarrow>
   logging_log vformat now module level message arglist s = Done s"
  by (simp add: logging_log_def)

lemma logging_log_passes:
  assumes "uint level \<le> uint (g_level s)"
    and "ready s f m"
    and "vformat message arglist = Some body"
    and "clock_ok (g_timestamp_printed s) now t"
  shows "logging_log vformat now module level message arglist s =
         Done (s\<lparr>trace := trace s @
                 log_events f m (stamp_of (g_timestamp_printed s) t) module level body\<rparr>)"
proof -
  have upd: "(mutexes s)(m \<mapsto> False) = mutexes s"
    using assms(2) by (simp add: map_upd_triv ready_def)
  show ?thesis
    using assms upd
    by (auto simp add: logging_log_def log_events_def tier_label_def fprintf_def fflush_def
        pthread_mutex_lock_def pthread_mutex_unlock_def vfprintf_def timestamp_print_def emit_def
        ready_def clock_ok_def stamp_of_def)
qed

lemma tier_label_highest: "0 \<le> v \<Longrightarrow> highest_tier v = Some (tier_label v)"
  by (simp add: highest_tier_def tier_table_def tier_label_def LOGGING_LEVEL_DEBUG_def
      LOGGING_LEVEL_INFO_def LOGGING_LEVEL_WARNING_def LOGGING_LEVEL_ERROR_def)

lemma digits_one: "n < 10 \<Longrightarrow> digits n = [digit_char n]"
  by (simp add: digits.simps)

lemma digits_step: "10 \<le> n \<Longrightarrow> digits n = digits (n div 10) @ [digit_char (n mod 10)]"
  by (subst digits.simps) simp

lemma digit_char_0: "digit_char 0 = CHR ''0''"
  by (simp add: digit_char_def)

lemma digits_two:
  "10 \<le> n \<Longrightarrow> n < 100 \<Longrightarrow> digits n = [digit_char (n div 10), digit_char (n mod 10)]"
  by (simp add: digits_step digits_one)

lemma digits_three:
  "100 \<le> n \<Longrightarrow> n < 1000 \<Longrightarrow>
   digits n = [digit_char (n div 100), digit_char (n div 10 mod 10), digit_char (n mod 10)]"
proof -
  assume n: "100 \<le> n" "n < 1000"
  then have "10 \<le> n div 10" "n div 10 < 100" by simp_all
  then have "digits (n div 10) = [digit_char (n div 10 div 10), digit_char (n div 10 mod 10)]"
    by (rule digits_two)
  moreover have "n div 10 div 10 = n div 100" by (simp add: div_mult2_eq [symmetric])
  moreover have "digits n = digits (n div 10) @ [digit_char (n mod 10)]"
    using n by (intro digits_step) simp
  ultimately show ?thesis by simp
qed

lemma digits_four:
  "1000 \<le> n \<Longrightarrow> n < 10000 \<Longrightarrow>
   digits n = [digit_char (n div 1000), digit_char (n div 100 mod 10),
               digit_char (n div 10 mod 10), digit_char (n mod 10)]"
proof -
  assume n: "1000 \<le> n" "n < 10000"
  then have "100 \<le> n div 10" "n div 10 < 1000" by simp_all
  then have "digits (n div 10) =
      [digit_char (n div 10 div 100), digit_char (n div 10 div 10 mod 10),
       digit_char (n div 10 mod 10)]"
    by (rule digits_three)
  moreover have "n div 10 div 100 = n div 1000" "n div 10 div 10 = n div 100"
    by (simp_all add: div_mult2_eq [symmetric])
  moreover have "digits n = digits (n div 10) @ [digit_char (n mod 10)]"
    using n by (intro digits_step) simp
  ultimately show ?thesis by simp
qed

lemma digits_padded_to_four:
  "n < 10000 \<Longrightarrow>
   replicate (4 - length (digits n)) (CHR ''0'') @ digits n =
   [digit_char (n div 1000), digit_char (n div 100 mod 10), digit_char (n div 10 mod 10),
    digit_char (n mod 10)]"
proof -
  assume n: "n < 10000"
  consider "n < 10" | "10 \<le> n" "n < 100" | "100 \<le> n" "n < 1000" | "1000 \<le> n"
    by linarith
  then show ?thesis
  proof cases
    case 1
    then have "n div 1000 = 0" "n div 100 = 0" "n div 10 = 0" "n mod 10 = n" by simp_all
    with 1 show ?thesis
      by (simp add: digits_one digit_char_0 numeral_3_eq_3)
  next
    case 2
    then have "n div 1000 = 0" "n div 100 = 0" by simp_all
    with 2 show ?thesis
      by (simp add: digits_two digit_char_0 numeral_2_eq_2)
  next
    case 3
    then have "n div 1000 = 0" "n div 100 mod 10 = n div 100" by simp_all
    with 3 show ?thesis
      by (simp add: digits_three digit_char_0)
  next
    case 4
    with n show ?thesis
      by (simp add: digits_four)
  qed
qed

lemma fmt_0d_two: "0 \<le> n \<Longrightarrow> n < 100 \<Longrightarrow> fmt_0d 2 n = two_digits n"
proof (cases "n < 10")
  case True
  assume "0 \<le> n"
  with True show ?thesis
    by (simp add: fmt_0d_def two_digits_def digits_one digit_char_0)
next
  case False
  assume "0 \<le> n" "n < 100"
  with False have "10 \<le> nat n" "nat n < 100" by auto
  then show ?thesis
    using \<open>0 \<le> n\<close> by (simp add: fmt_0d_def two_digits_def digits_two)
qed

lemma fmt_0d_four: "0 \<le> n \<Longrightarrow> n < 10000 \<Longrightarrow> fmt_0d 4 n = four_digits n"
  using digits_padded_to_four [of "nat n"] by (simp add: fmt_0d_def four_digits_def)

lemma timestamp_text_calendar: "calendar_time t \<Longrightarrow> timestamp_text t = dd_mm_yyyy t"
  by (simp add: calendar_time_def timestamp_text_def dd_mm_yyyy_def fmt_0d_two fmt_0d_four)

lemma logging_log_returns:
  assumes "uint level \<le> uint (g_level s)"
    and "logging_log vformat now module level message arglist s = Done s'"
  shows "\<exists>f m body t. ready s f m \<and> vformat message arglist = Some body
           \<and> clock_ok (g_timestamp_printed s) now t"
  using assms
  by (auto simp add: logging_log_def fprintf_def fflush_def
        pthread_mutex_lock_def pthread_mutex_unlock_def vfprintf_def timestamp_print_def emit_def
        ready_def clock_ok_def
        split: option.splits if_splits bool.splits)

lemma pthread_mutex_lock_free:
  "g_print_mutex s = Some m \<Longrightarrow> mutexes s m = Some False \<Longrightarrow>
   pthread_mutex_lock (g_print_mutex s) s =
     Done (s\<lparr>mutexes := (mutexes s)(m \<mapsto> True), trace := trace s @ [Mutex_lock m]\<rparr>)"
  by (simp add: pthread_mutex_lock_def emit_def)

lemma pthread_mutex_unlock_held:
  "g_print_mutex s = Some m \<Longrightarrow> mutexes s m = Some True \<Longrightarrow>
   pthread_mutex_unlock (g_print_mutex s) s =
     Done (s\<lparr>mutexes := (mutexes s)(m \<mapsto> False), trace := trace s @ [Mutex_unlock m]\<rparr>)"
  by (simp add: pthread_mutex_unlock_def emit_def)

lemma logging_aquire_fd_passes:
  assumes "uint level \<le> uint (g_level s)"
    and "ready s f m"
    and "vformat ''*** External logging started...'' no_args = Some body"
    and "clock_ok (g_timestamp_printed s) now t"
  shows "logging_aquire_fd vformat no_args now level s =
         Done (Some f,
               s\<lparr>mutexes := (mutexes s)(m \<mapsto> True),
                 trace := trace s
                   @ log_events f m (stamp_of (g_timestamp_printed s) t) ''Logging'' level body
                   @ [Mutex_lock m]\<rparr>)"
proof -
  let ?s1 = "s\<lparr>trace := trace s @
      log_events f m (stamp_of (g_timestamp_printed s) t) ''Logging'' level body\<rparr>"
  have log: "logging_log vformat now ''Logging'' level ''*** External logging started...''
      no_args s = Done ?s1"
    using assms by (rule logging_log_passes)
  show ?thesis
    using assms(1,2)
    by (simp add: logging_aquire_fd_def log ready_def pthread_mutex_lock_def emit_def)
qed

lemma logging_aquire_fd_returns:
  assumes "uint level \<le> uint (g_level s)"
    and "logging_aquire_fd vformat no_args now level s = Done (r, s')"
  shows "\<exists>f m body t. ready s f m
           \<and> vformat ''*** External logging started...'' no_args = Some body
           \<and> clock_ok (g_timestamp_printed s) now t"
proof -
  from assms obtain s1 where
    "logging_log vformat now ''Logging'' level ''*** External logging started...'' no_args s
       = Done s1"
    by (auto simp add: logging_aquire_fd_def split: outcome.splits)
  with assms(1) show ?thesis by (rule logging_log_returns)
qed

lemma logging_release_fd_dropped:
  assumes "g_print_mutex s = Some m" and "mutexes s m = Some True"
    and "uint (g_level s) < uint level"
  shows "logging_release_fd vformat no_args now level s =
         Done (s\<lparr>mutexes := (mutexes s)(m \<mapsto> False), trace := trace s @ [Mutex_unlock m]\<rparr>)"
  using assms
  by (simp add: logging_release_fd_def pthread_mutex_unlock_def emit_def logging_log_def)

lemma logging_release_fd_passes:
  assumes "g_print_mutex s = Some m" and "mutexes s m = Some True"
    and "uint level \<le> uint (g_level s)"
    and "g_destination s = Some f"
    and "vformat ''*** External logging ended...'' no_args = Some body"
    and "clock_ok (g_timestamp_printed s) now t"
  shows "logging_release_fd vformat no_args now level s =
         Done (s\<lparr>mutexes := (mutexes s)(m \<mapsto> False),
                 trace := trace s @ Mutex_unlock m
                   # log_events f m (stamp_of (g_timestamp_printed s) t) ''Logging'' level body\<rparr>)"
proof -
  let ?s1 = "s\<lparr>mutexes := (mutexes s)(m \<mapsto> False), trace := trace s @ [Mutex_unlock m]\<rparr>"
  have unlock: "pthread_mutex_unlock (g_print_mutex s) s = Done ?s1"
    using assms(1,2) by (simp add: pthread_mutex_unlock_def emit_def)
  have "uint level \<le> uint (g_level ?s1)" "ready ?s1 f m"
      "clock_ok (g_timestamp_printed ?s1) now t"
    using assms by (simp_all add: ready_def)
  then have "logging_log vformat now ''Logging'' level ''*** External logging ended...''
      no_args ?s1 =
      Done (?s1\<lparr>trace := trace ?s1 @
              log_events f m (stamp_of (g_timestamp_printed ?s1) t) ''Logging'' level body\<rparr>)"
    using assms(5) by (intro logging_log_passes)
  then show ?thesis
    by (simp add: logging_release_fd_def unlock)
qed

subsection \<open>Two concurrent calls\<close>

lemma outcome_case_id:
  "(case x of Done s' \<Rightarrow> Done s' | Blocked \<Rightarrow> Blocked | Undefined y \<Rightarrow> Undefined y) = x"
  by (cases x) simp_all

lemma run_Cond:
  "run (Cond b body # p) s =
     (case (if b s then run body s else Done s) of
        Done s' \<Rightarrow> run p s' | Blocked \<Rightarrow> Blocked | Undefined x \<Rightarrow> Undefined x)"
  by simp

lemma run_logging_log_prog:
  "run (logging_log_prog vformat now module level message arglist) s =
   logging_log vformat now module level message arglist s"
  by (simp add: logging_log_prog_def logging_log_def run_Cond outcome_case_id del: run.simps(3)
      cong: outcome.case_cong if_cong)

lemma emits_step:
  assumes "emits s0 f p text" and "p \<noteq> []" and "same_config s0 s"
  shows "\<exists>p' s' t u. step (p @ rest) s = Done (p' @ rest, s') \<and> same_config s0 s'
           \<and> mutexes s' = mutexes s \<and> written f (trace s') = written f (trace s) @ t
           \<and> text = t @ u \<and> emits s0 f p' u"
  using assms
proof cases
  case silent
  with assms(2) show ?thesis by simp
next
  case (writes c chunk p0 rest0)
  let ?s' = "emit (Write f chunk) s"
  have "step (p @ rest) s = Done (p0 @ rest, ?s')"
    using writes assms(3) by simp
  moreover have "same_config s0 ?s'" "mutexes ?s' = mutexes s"
    "written f (trace ?s') = written f (trace s) @ chunk"
    using assms(3) by (simp_all add: emit_def same_config_def written_append)
  ultimately show ?thesis using writes by blast
next
  case (branch b v body p0)
  have "step (p @ rest) s = Done (((if v then body else []) @ p0) @ rest, s)"
    using branch assms(3) by simp
  moreover have "written f (trace s) = written f (trace s) @ []" by simp
  moreover have "text = [] @ text" by simp
  ultimately show ?thesis using branch(3) assms(3) by blast
qed

lemma emits_Nil: "emits s0 f [] u \<Longrightarrow> u = []"
  by (erule emits.cases) simp_all

lemma thread_stepI:
  assumes "step p s = Done (p', s')" and "same_config s0 s'"
    and "thread_at s0 f line p' ph' todo'"
    and "written f (trace s') = written f (trace s) @ t" and "todo = t @ todo'"
    and "ph' = Inside \<and> ph \<noteq> Inside \<longrightarrow> \<not> held \<and> mutexes s' m = Some True"
    and "ph = Inside \<and> ph' \<noteq> Inside \<longrightarrow> todo = [] \<and> mutexes s' m = Some False"
    and "(ph = Inside \<longleftrightarrow> ph' = Inside) \<longrightarrow> mutexes s' m = Some held"
    and "ph \<noteq> Inside \<longrightarrow> t = []"
  shows "(step p s = Blocked \<and> ph = Waiting \<and> held)
       \<or> (\<exists>p' s' ph' todo' t.
            step p s = Done (p', s') \<and> same_config s0 s' \<and> thread_at s0 f line p' ph' todo'
            \<and> written f (trace s') = written f (trace s) @ t \<and> todo = t @ todo'
            \<and> (ph' = Inside \<and> ph \<noteq> Inside \<longrightarrow> \<not> held \<and> mutexes s' m = Some True)
            \<and> (ph = Inside \<and> ph' \<noteq> Inside \<longrightarrow> todo = [] \<and> mutexes s' m = Some False)
            \<and> ((ph = Inside \<longleftrightarrow> ph' = Inside) \<longrightarrow> mutexes s' m = Some held)
            \<and> (ph \<noteq> Inside \<longrightarrow> t = []))"
  using assms by blast

lemma thread_step:
  assumes th: "thread_at s0 f line p ph todo"
    and cfg: "same_config s0 s" "g_destination s0 = Some f" "g_print_mutex s0 = Some m"
    and mtx: "mutexes s m = Some held" "ph = Inside \<Longrightarrow> held"
  shows "(step p s = Blocked \<and> ph = Waiting \<and> held)
       \<or> (\<exists>p' s' ph' todo' t.
            step p s = Done (p', s') \<and> same_config s0 s' \<and> thread_at s0 f line p' ph' todo'
            \<and> written f (trace s') = written f (trace s) @ t \<and> todo = t @ todo'
            \<and> (ph' = Inside \<and> ph \<noteq> Inside \<longrightarrow> \<not> held \<and> mutexes s' m = Some True)
            \<and> (ph = Inside \<and> ph' \<noteq> Inside \<longrightarrow> todo = [] \<and> mutexes s' m = Some False)
            \<and> ((ph = Inside \<longleftrightarrow> ph' = Inside) \<longrightarrow> mutexes s' m = Some held)
            \<and> (ph \<noteq> Inside \<longrightarrow> t = []))"
  using th
proof cases
  case (before b ws)
  have "thread_at s0 f line (lock_call # ws @ [unlock_call, flush_call]) Waiting line"
    using before by (intro thread_at.waiting)
  then show ?thesis
    by (rule thread_stepI [where p' = "lock_call # ws @ [unlock_call, flush_call]" and s' = s
          and ph' = Waiting and todo' = line and t = "[]", rotated 2])
      (use before cfg(1) mtx(1) in simp_all)
next
  case (filtered b body)
  have "thread_at s0 f line [] Over []" by (rule thread_at.over)
  then show ?thesis
    by (rule thread_stepI [where p' = "[]" and s' = s and ph' = Over and todo' = "[]"
          and t = "[]", rotated 2])
      (use filtered cfg(1) mtx(1) in simp_all)
next
  case (waiting ws)
  show ?thesis
  proof (cases held)
    case True
    then have "step p s = Blocked"
      using waiting cfg mtx(1)
      by (simp add: lock_call_def pthread_mutex_lock_def same_config_def)
    with waiting True show ?thesis by simp
  next
    case False
    let ?s' = "emit (Mutex_lock m) (s\<lparr>mutexes := (mutexes s)(m \<mapsto> True)\<rparr>)"
    have "thread_at s0 f line (ws @ [unlock_call, flush_call]) Inside line"
      using waiting by (intro thread_at.inside)
    then show ?thesis
      by (rule thread_stepI [where p' = "ws @ [unlock_call, flush_call]" and s' = ?s'
            and ph' = Inside and todo' = line and t = "[]", rotated 2])
        (use False waiting cfg mtx(1) in
          \<open>simp_all add: lock_call_def pthread_mutex_lock_def same_config_def emit_def
             written_append\<close>)
  qed
next
  case (inside ws)
  then have held: held using mtx(2) by simp
  show ?thesis
  proof (cases "ws = []")
    case True
    let ?s' = "emit (Mutex_unlock m) (s\<lparr>mutexes := (mutexes s)(m \<mapsto> False)\<rparr>)"
    have todo: "todo = []" using inside True by (auto dest: emits_Nil)
    have "thread_at s0 f line [flush_call] After []" by (rule thread_at.after)
    then show ?thesis
      by (rule thread_stepI [where p' = "[flush_call]" and s' = ?s'
            and ph' = After and todo' = "[]" and t = "[]", rotated 2])
        (use True inside todo held cfg mtx(1) in
          \<open>simp_all add: unlock_call_def pthread_mutex_unlock_def same_config_def emit_def
             written_append\<close>)
  next
    case False
    with inside cfg(1) obtain p' s' t u where
      st: "step (ws @ [unlock_call, flush_call]) s = Done (p' @ [unlock_call, flush_call], s')"
        "same_config s0 s'" "mutexes s' = mutexes s"
        "written f (trace s') = written f (trace s) @ t" "todo = t @ u" "emits s0 f p' u"
      using emits_step [of s0 f ws todo s "[unlock_call, flush_call]"] by blast
    have "thread_at s0 f line (p' @ [unlock_call, flush_call]) Inside u"
      using st(6) by (rule thread_at.inside)
    then show ?thesis
      by (rule thread_stepI [where p' = "p' @ [unlock_call, flush_call]" and s' = s'
            and ph' = Inside and todo' = u and t = t, rotated 2])
        (use st inside mtx(1) in simp_all)
  qed
next
  case after
  let ?s' = "emit (Flush f) s"
  have "thread_at s0 f line [] Over []" by (rule thread_at.over)
  then show ?thesis
    by (rule thread_stepI [where p' = "[]" and s' = ?s' and ph' = Over and todo' = "[]"
          and t = "[]", rotated 2])
      (use after cfg mtx(1) in
        \<open>simp_all add: flush_call_def fflush_def same_config_def emit_def written_append\<close>)
next
  case over
  have "thread_at s0 f line [] Over []" by (rule thread_at.over)
  then show ?thesis
    by (rule thread_stepI [where p' = "[]" and s' = s and ph' = Over and todo' = "[]"
          and t = "[]", rotated 2])
      (use over cfg(1) mtx(1) in simp_all)
qed

lemma serial_sym: "serial w0 a b w = serial w0 b a w"
  by (auto simp add: serial_def)

lemma exclusion_sym:
  assumes "exclusion s0 f m lineA lineB p q s"
  shows "exclusion s0 f m lineB lineA q p s"
proof -
  from assms obtain phA phB todoA todoB where
    cfg: "same_config s0 s"
    and A: "thread_at s0 f lineA p phA todoA" and B: "thread_at s0 f lineB q phB todoB"
    and held: "mutexes s m = Some (phA = Inside \<or> phB = Inside)"
    and excl: "\<not> (phA = Inside \<and> phB = Inside)"
    and AB: "phB \<noteq> Inside \<longrightarrow>
               serial (written f (trace s0)) lineA lineB (written f (trace s) @ todoA @ todoB)"
    and BA: "phA \<noteq> Inside \<longrightarrow>
               serial (written f (trace s0)) lineA lineB (written f (trace s) @ todoB @ todoA)"
    unfolding exclusion_def by blast
  have held': "mutexes s m = Some (phB = Inside \<or> phA = Inside)"
    using held by (simp add: disj_commute)
  have excl': "\<not> (phB = Inside \<and> phA = Inside)"
    using excl by blast
  have "same_config s0 s \<and>
      (thread_at s0 f lineB q phB todoB \<and> thread_at s0 f lineA p phA todoA
         \<and> mutexes s m = Some (phB = Inside \<or> phA = Inside)
         \<and> \<not> (phB = Inside \<and> phA = Inside)
         \<and> (phA \<noteq> Inside \<longrightarrow>
               serial (written f (trace s0)) lineB lineA (written f (trace s) @ todoB @ todoA))
         \<and> (phB \<noteq> Inside \<longrightarrow>
               serial (written f (trace s0)) lineB lineA (written f (trace s) @ todoA @ todoB)))"
    using cfg A B held' excl' AB BA by (simp add: serial_sym [of _ lineB lineA])
  then show ?thesis
    unfolding exclusion_def by blast
qed

lemma exclusion_left:
  assumes inv: "exclusion s0 f m lineA lineB p q s"
    and dest: "g_destination s0 = Some f" and mutex: "g_print_mutex s0 = Some m"
  shows "step p s = Blocked \<or> (\<exists>p' s'. step p s = Done (p', s') \<and> exclusion s0 f m lineA lineB p' q s')"
proof -
  from inv obtain phA phB todoA todoB where
    cfg: "same_config s0 s"
    and A: "thread_at s0 f lineA p phA todoA" and B: "thread_at s0 f lineB q phB todoB"
    and held: "mutexes s m = Some (phA = Inside \<or> phB = Inside)"
    and excl: "\<not> (phA = Inside \<and> phB = Inside)"
    and AB: "phB \<noteq> Inside \<longrightarrow>
               serial (written f (trace s0)) lineA lineB (written f (trace s) @ todoA @ todoB)"
    and BA: "phA \<noteq> Inside \<longrightarrow>
               serial (written f (trace s0)) lineA lineB (written f (trace s) @ todoB @ todoA)"
    unfolding exclusion_def by blast
  have "phA = Inside \<Longrightarrow> phA = Inside \<or> phB = Inside" by simp
  with thread_step [OF A cfg dest mutex held]
  consider "step p s = Blocked"
    | p' s' ph' todo' t where "step p s = Done (p', s')" "same_config s0 s'"
        "thread_at s0 f lineA p' ph' todo'"
        "written f (trace s') = written f (trace s) @ t" "todoA = t @ todo'"
        "ph' = Inside \<and> phA \<noteq> Inside \<longrightarrow>
           \<not> (phA = Inside \<or> phB = Inside) \<and> mutexes s' m = Some True"
        "phA = Inside \<and> ph' \<noteq> Inside \<longrightarrow> todoA = [] \<and> mutexes s' m = Some False"
        "(phA = Inside \<longleftrightarrow> ph' = Inside) \<longrightarrow>
           mutexes s' m = Some (phA = Inside \<or> phB = Inside)"
        "phA \<noteq> Inside \<longrightarrow> t = []"
    by blast
  then show ?thesis
  proof cases
    case 1
    then show ?thesis by simp
  next
    case 2
    have m': "mutexes s' m = Some (ph' = Inside \<or> phB = Inside)"
      using 2(6,7,8) excl by (cases "phA = Inside"; cases "ph' = Inside") auto
    have excl': "\<not> (ph' = Inside \<and> phB = Inside)"
      using 2(6) excl by (cases "phA = Inside") auto
    have AB': "phB \<noteq> Inside \<longrightarrow>
        serial (written f (trace s0)) lineA lineB (written f (trace s') @ todo' @ todoB)"
      using AB 2(4,5) by simp
    have BA': "ph' \<noteq> Inside \<longrightarrow>
        serial (written f (trace s0)) lineA lineB (written f (trace s') @ todoB @ todo')"
    proof (cases "phA = Inside")
      case True
      with excl have nB: "phB \<noteq> Inside" by simp
      show ?thesis
      proof
        assume "ph' \<noteq> Inside"
        with True 2(7) have "todoA = []" by simp
        with 2(5) have "t = []" "todo' = []" by simp_all
        with nB AB \<open>todoA = []\<close> 2(4) show
          "serial (written f (trace s0)) lineA lineB (written f (trace s') @ todoB @ todo')"
          by simp
      qed
    next
      case False
      with 2(9) have "t = []" by simp
      with False BA 2(4,5) show ?thesis by simp
    qed
    have "exclusion s0 f m lineA lineB p' q s'"
      unfolding exclusion_def using 2(2,3) B m' excl' AB' BA' by blast
    with 2(1) show ?thesis by blast
  qed
qed

lemma exclusion_right:
  assumes "exclusion s0 f m lineA lineB p q s"
    and "g_destination s0 = Some f" and "g_print_mutex s0 = Some m"
  shows "step q s = Blocked \<or> (\<exists>q' s'. step q s = Done (q', s') \<and> exclusion s0 f m lineA lineB p q' s')"
  using exclusion_left [OF exclusion_sym [OF assms(1)] assms(2,3)]
  by (blast dest: exclusion_sym)

lemma exclusion_interleave:
  assumes "exclusion s0 f m lineA lineB p q s"
    and "g_destination s0 = Some f" and "g_print_mutex s0 = Some m"
  shows "\<exists>p' q' r. interleave sch p q s = Done (p', q', r) \<and> exclusion s0 f m lineA lineB p' q' r"
  using assms(1)
proof (induction sch arbitrary: p q s)
  case Nil
  then show ?case by simp
next
  case (Cons turn sch)
  show ?case
  proof (cases turn)
    case True
    from exclusion_left [OF Cons.prems assms(2,3)] show ?thesis
    proof
      assume "step p s = Blocked"
      with True Cons.IH [OF Cons.prems] show ?thesis by simp
    next
      assume "\<exists>p' s'. step p s = Done (p', s') \<and> exclusion s0 f m lineA lineB p' q s'"
      then obtain p' s' where "step p s = Done (p', s')" "exclusion s0 f m lineA lineB p' q s'"
        by blast
      with True Cons.IH [of p' q s'] show ?thesis by simp
    qed
  next
    case False
    from exclusion_right [OF Cons.prems assms(2,3)] show ?thesis
    proof
      assume "step q s = Blocked"
      with False Cons.IH [OF Cons.prems] show ?thesis by simp
    next
      assume "\<exists>q' s'. step q s = Done (q', s') \<and> exclusion s0 f m lineA lineB p q' s'"
      then obtain q' s' where "step q s = Done (q', s')" "exclusion s0 f m lineA lineB p q' s'"
        by blast
      with False Cons.IH [of p q' s'] show ?thesis by simp
    qed
  qed
qed

lemma thread_at_finished: "thread_at s0 f line [] ph todo \<Longrightarrow> ph = Over \<and> todo = []"
  by (erule thread_at.cases) (simp_all add: lock_call_def)

lemma exclusion_finished:
  "exclusion s0 f m lineA lineB [] [] r \<Longrightarrow>
   serial (written f (trace s0)) lineA lineB (written f (trace r))"
  unfolding exclusion_def by (auto dest!: thread_at_finished)

lemma emits_write:
  assumes "\<And>s. same_config s0 s \<Longrightarrow> c s = Done (emit (Write f chunk) s)"
    and "emits s0 f p rest" and "line = chunk @ rest"
  shows "emits s0 f (Call c # p) line"
  using emits.writes [OF assms(1,2)] assms(3) by simp

lemma emits_branch:
  assumes "\<And>s. same_config s0 s \<Longrightarrow> b s = v"
    and "v \<Longrightarrow> emits s0 f (body @ p) line" and "\<not> v \<Longrightarrow> emits s0 f p line"
  shows "emits s0 f (Cond b body # p) line"
  using emits.branch [of s0 b v f body p line] assms by (cases v) simp_all

lemma logging_log_prog_emits:
  assumes dest: "g_destination s0 = Some f"
    and body: "vformat message arglist = Some body"
    and clock: "clock_ok (g_timestamp_printed s0) now t"
  shows "emits s0 f
     [Call (\<lambda>s. if uint level \<ge> LOGGING_LEVEL_DEBUG then
                    fprintf (g_destination s) (''['' @ fmt_d (uint level) @ '':DEBUG'') s
                  else if uint level \<ge> LOGGING_LEVEL_INFO then
                    fprintf (g_destination s) (''['' @ fmt_d (uint level) @ '':INFO'') s
                  else if uint level \<ge> LOGGING_LEVEL_WARNING then
                    fprintf (g_destination s) (''['' @ fmt_d (uint level) @ '':WARNING'') s
                  else if uint level \<ge> LOGGING_LEVEL_ERROR then
                    fprintf (g_destination s) (''['' @ fmt_d (uint level) @ '':ERROR'') s
                  else
                    fprintf (g_destination s) (''['' @ fmt_d (uint level) @ '':CRITICAL'') s),
      Cond (\<lambda>s. g_timestamp_printed s \<noteq> 0)
        [Call (\<lambda>s. fprintf (g_destination s) ''@'' s),
         Call (\<lambda>s. timestamp_print now s)],
      Call (\<lambda>s. fprintf (g_destination s) ''] '' s),
      Call (\<lambda>s. fprintf (g_destination s) (module @ '': '') s),
      Call (\<lambda>s. vfprintf vformat (g_destination s) message arglist s),
      Call (\<lambda>s. fprintf (g_destination s) newline s)]
     (log_line (stamp_of (g_timestamp_printed s0) t) module (uint level)
        (tier_label (uint level)) body)"
proof -
  let ?tail = "[Call (\<lambda>s. fprintf (g_destination s) ''] '' s),
      Call (\<lambda>s. fprintf (g_destination s) (module @ '': '') s),
      Call (\<lambda>s. vfprintf vformat (g_destination s) message arglist s),
      Call (\<lambda>s. fprintf (g_destination s) newline s)]"
  have tail: "emits s0 f ?tail (''] '' @ module @ '': '' @ body @ newline)"
    by (intro emits_write [where chunk = "''] ''" and rest = "module @ '': '' @ body @ newline"]
          emits_write [where chunk = "module @ '': ''" and rest = "body @ newline"]
          emits_write [where chunk = body and rest = newline]
          emits_write [where chunk = newline and rest = "[]"] emits.silent)
      (simp_all add: fprintf_def vfprintf_def same_config_def dest body)
  have stamped: "emits s0 f
      ([Call (\<lambda>s. fprintf (g_destination s) ''@'' s), Call (\<lambda>s. timestamp_print now s)] @ ?tail)
      (''@'' @ timestamp_text t @ ''] '' @ module @ '': '' @ body @ newline)"
    if "g_timestamp_printed s0 \<noteq> 0"
  proof -
    from that clock have "now = Some t" "tm_year t + 1900 \<le> INT_MAX"
      by (simp_all add: clock_ok_def)
    then have "emits s0 f
        (Call (\<lambda>s. fprintf (g_destination s) ''@'' s) # Call (\<lambda>s. timestamp_print now s) # ?tail)
        (''@'' @ timestamp_text t @ ''] '' @ module @ '': '' @ body @ newline)"
      by (intro emits_write [where chunk = "''@''"
              and rest = "timestamp_text t @ ''] '' @ module @ '': '' @ body @ newline"]
            emits_write [where chunk = "timestamp_text t"
              and rest = "''] '' @ module @ '': '' @ body @ newline"] tail)
        (simp_all add: fprintf_def timestamp_print_def same_config_def dest)
    then show ?thesis by simp
  qed
  have rest: "emits s0 f
      (Cond (\<lambda>s. g_timestamp_printed s \<noteq> 0)
        [Call (\<lambda>s. fprintf (g_destination s) ''@'' s), Call (\<lambda>s. timestamp_print now s)]
       # ?tail)
      ((case stamp_of (g_timestamp_printed s0) t of None \<Rightarrow> [] | Some text \<Rightarrow> ''@'' @ text)
       @ ''] '' @ module @ '': '' @ body @ newline)"
  proof (rule emits_branch [where v = "g_timestamp_printed s0 \<noteq> 0"])
    show "(g_timestamp_printed s \<noteq> 0) = (g_timestamp_printed s0 \<noteq> 0)"
      if "same_config s0 s" for s
      using that by (simp add: same_config_def)
  next
    assume on: "g_timestamp_printed s0 \<noteq> 0"
    with stamped show "emits s0 f
      ([Call (\<lambda>s. fprintf (g_destination s) ''@'' s), Call (\<lambda>s. timestamp_print now s)] @ ?tail)
      ((case stamp_of (g_timestamp_printed s0) t of None \<Rightarrow> [] | Some text \<Rightarrow> ''@'' @ text)
       @ ''] '' @ module @ '': '' @ body @ newline)"
      by (simp add: stamp_of_def)
  next
    assume "\<not> g_timestamp_printed s0 \<noteq> 0"
    with tail show "emits s0 f ?tail
      ((case stamp_of (g_timestamp_printed s0) t of None \<Rightarrow> [] | Some text \<Rightarrow> ''@'' @ text)
       @ ''] '' @ module @ '': '' @ body @ newline)"
      by (simp add: stamp_of_def)
  qed
  show ?thesis
    by (rule emits_write [where chunk = "''['' @ fmt_d (uint level) @ '':'' @ tier_label (uint level)",
          OF _ rest])
      (simp_all add: fprintf_def same_config_def dest tier_label_def log_line_def)
qed

lemma logging_log_prog_thread:
  assumes dest: "g_destination s0 = Some f"
    and body: "vformat message arglist = Some body"
    and clock: "clock_ok (g_timestamp_printed s0) now t"
  shows "thread_at s0 f (emitted_line s0 t module level body)
           (logging_log_prog vformat now module level message arglist) Before
           (emitted_line s0 t module level body)"
proof (cases "uint level \<le> uint (g_level s0)")
  case True
  let ?ws = "[Call (\<lambda>s. if uint level \<ge> LOGGING_LEVEL_DEBUG then
                    fprintf (g_destination s) (''['' @ fmt_d (uint level) @ '':DEBUG'') s
                  else if uint level \<ge> LOGGING_LEVEL_INFO then
                    fprintf (g_destination s) (''['' @ fmt_d (uint level) @ '':INFO'') s
                  else if uint level \<ge> LOGGING_LEVEL_WARNING then
                    fprintf (g_destination s) (''['' @ fmt_d (uint level) @ '':WARNING'') s
                  else if uint level \<ge> LOGGING_LEVEL_ERROR then
                    fprintf (g_destination s) (''['' @ fmt_d (uint level) @ '':ERROR'') s
                  else
                    fprintf (g_destination s) (''['' @ fmt_d (uint level) @ '':CRITICAL'') s),
      Cond (\<lambda>s. g_timestamp_printed s \<noteq> 0)
        [Call (\<lambda>s. fprintf (g_destination s) ''@'' s),
         Call (\<lambda>s. timestamp_print now s)],
      Call (\<lambda>s. fprintf (g_destination s) ''] '' s),
      Call (\<lambda>s. fprintf (g_destination s) (module @ '': '') s),
      Call (\<lambda>s. vfprintf vformat (g_destination s) message arglist s),
      Call (\<lambda>s. fprintf (g_destination s) newline s)]"
  have prog: "logging_log_prog vformat now module level message arglist =
      [Cond (\<lambda>s. uint level \<le> uint (g_level s)) (lock_call # ?ws @ [unlock_call, flush_call])]"
    by (simp add: logging_log_prog_def lock_call_def unlock_call_def flush_call_def)
  have line: "emitted_line s0 t module level body =
      log_line (stamp_of (g_timestamp_printed s0) t) module (uint level)
        (tier_label (uint level)) body"
    using True by (simp add: emitted_line_def)
  have pass: "uint level \<le> uint (g_level s)" if "same_config s0 s" for s
    using that True by (simp add: same_config_def)
  have em: "emits s0 f ?ws
      (log_line (stamp_of (g_timestamp_printed s0) t) module (uint level)
         (tier_label (uint level)) body)"
    by (rule logging_log_prog_emits [where vformat = vformat and message = message
          and arglist = arglist, OF dest body clock])
  show ?thesis
    unfolding prog line by (intro thread_at.before pass em)
next
  case False
  have "\<not> uint level \<le> uint (g_level s)" if "same_config s0 s" for s
    using that False by (simp add: same_config_def)
  moreover have "emitted_line s0 t module level body = []"
    using False by (simp add: emitted_line_def)
  ultimately show ?thesis
    unfolding logging_log_prog_def by (simp add: thread_at.filtered)
qed

lemma run_left:
  "run p s = Done s' \<Longrightarrow>
   \<exists>n. \<forall>rest q sch.
     interleave (replicate n True @ sch) (p @ rest) q s = interleave sch rest q s'"
proof (induction p s arbitrary: s' rule: run.induct)
  case (1 s)
  then have "\<forall>rest q sch. interleave (replicate 0 True @ sch) ([] @ rest) q s
      = interleave sch rest q s'"
    by simp
  then show ?case by blast
next
  case (2 c p s)
  from "2.prems" obtain s1 where c: "c s = Done s1" and rest: "run p s1 = Done s'"
    by (auto split: outcome.splits)
  from "2.IH" [OF c rest] obtain n where
    n: "\<forall>rest q sch. interleave (replicate n True @ sch) (p @ rest) q s1
          = interleave sch rest q s'"
    by blast
  have "\<forall>rest q sch. interleave (replicate (Suc n) True @ sch) ((Call c # p) @ rest) q s
      = interleave sch rest q s'"
    using c n by simp
  then show ?case by blast
next
  case (3 b body p s)
  show ?case
  proof (cases "b s")
    case True
    with "3.prems" obtain s1 where body: "run body s = Done s1" and rest: "run p s1 = Done s'"
      by (auto split: outcome.splits)
    from "3.IH"(1) [OF True body] obtain n1 where
      n1: "\<forall>rest q sch. interleave (replicate n1 True @ sch) (body @ rest) q s
            = interleave sch rest q s1"
      by blast
    from "3.IH"(2) [OF True body rest] obtain n2 where
      n2: "\<forall>rest q sch. interleave (replicate n2 True @ sch) (p @ rest) q s1
            = interleave sch rest q s'"
      by blast
    have "interleave (replicate (Suc (n1 + n2)) True @ sch) ((Cond b body # p) @ rest) q s
        = interleave sch rest q s'" for rest q sch
    proof -
      have "interleave (replicate (Suc (n1 + n2)) True @ sch) ((Cond b body # p) @ rest) q s
          = interleave (replicate n1 True @ (replicate n2 True @ sch)) (body @ (p @ rest)) q s"
        using True by (simp add: replicate_add)
      also have "\<dots> = interleave (replicate n2 True @ sch) (p @ rest) q s1"
        using n1 by blast
      also have "\<dots> = interleave sch rest q s'"
        using n2 by blast
      finally show ?thesis .
    qed
    then show ?thesis by blast
  next
    case False
    with "3.prems" have rest: "run p s = Done s'" by simp
    from "3.IH"(3) [OF False rest] obtain n where
      n: "\<forall>rest q sch. interleave (replicate n True @ sch) (p @ rest) q s
            = interleave sch rest q s'"
      by blast
    have "\<forall>rest q sch. interleave (replicate (Suc n) True @ sch) ((Cond b body # p) @ rest) q s
        = interleave sch rest q s'"
      using False n by simp
    then show ?thesis by blast
  qed
qed

lemma run_right:
  "run q s = Done s' \<Longrightarrow>
   \<exists>n. \<forall>rest p sch.
     interleave (replicate n False @ sch) p (q @ rest) s = interleave sch p rest s'"
proof (induction q s arbitrary: s' rule: run.induct)
  case (1 s)
  then have "\<forall>rest p sch. interleave (replicate 0 False @ sch) p ([] @ rest) s
      = interleave sch p rest s'"
    by simp
  then show ?case by blast
next
  case (2 c q s)
  from "2.prems" obtain s1 where c: "c s = Done s1" and rest: "run q s1 = Done s'"
    by (auto split: outcome.splits)
  from "2.IH" [OF c rest] obtain n where
    n: "\<forall>rest p sch. interleave (replicate n False @ sch) p (q @ rest) s1
          = interleave sch p rest s'"
    by blast
  have "\<forall>rest p sch. interleave (replicate (Suc n) False @ sch) p ((Call c # q) @ rest) s
      = interleave sch p rest s'"
    using c n by simp
  then show ?case by blast
next
  case (3 b body q s)
  show ?case
  proof (cases "b s")
    case True
    with "3.prems" obtain s1 where body: "run body s = Done s1" and rest: "run q s1 = Done s'"
      by (auto split: outcome.splits)
    from "3.IH"(1) [OF True body] obtain n1 where
      n1: "\<forall>rest p sch. interleave (replicate n1 False @ sch) p (body @ rest) s
            = interleave sch p rest s1"
      by blast
    from "3.IH"(2) [OF True body rest] obtain n2 where
      n2: "\<forall>rest p sch. interleave (replicate n2 False @ sch) p (q @ rest) s1
            = interleave sch p rest s'"
      by blast
    have "interleave (replicate (Suc (n1 + n2)) False @ sch) p ((Cond b body # q) @ rest) s
        = interleave sch p rest s'" for rest p sch
    proof -
      have "interleave (replicate (Suc (n1 + n2)) False @ sch) p ((Cond b body # q) @ rest) s
          = interleave (replicate n1 False @ (replicate n2 False @ sch)) p (body @ (q @ rest)) s"
        using True by (simp add: replicate_add)
      also have "\<dots> = interleave (replicate n2 False @ sch) p (q @ rest) s1"
        using n1 by blast
      also have "\<dots> = interleave sch p rest s'"
        using n2 by blast
      finally show ?thesis .
    qed
    then show ?thesis by blast
  next
    case False
    with "3.prems" have rest: "run q s = Done s'" by simp
    from "3.IH"(3) [OF False rest] obtain n where
      n: "\<forall>rest p sch. interleave (replicate n False @ sch) p (q @ rest) s
            = interleave sch p rest s'"
      by blast
    have "\<forall>rest p sch. interleave (replicate (Suc n) False @ sch) p ((Cond b body # q) @ rest) s
        = interleave sch p rest s'"
      using False n by simp
    then show ?thesis by blast
  qed
qed

lemma logging_log_ready:
  assumes "ready s f m" and "vformat message arglist = Some body"
    and "clock_ok (g_timestamp_printed s) now t"
  shows "\<exists>s'. logging_log vformat now module level message arglist s = Done s'
           \<and> ready s' f m \<and> g_timestamp_printed s' = g_timestamp_printed s"
proof (cases "uint level \<le> uint (g_level s)")
  case True
  with assms show ?thesis
    using logging_log_passes [of level s f m vformat message arglist body now t module]
    by (simp add: ready_def)
next
  case False
  with assms show ?thesis
    using logging_log_dropped [of s level vformat now module message arglist] by simp
qed

lemma both_finish:
  assumes "ready s f m" and "vformat messageA arglistA = Some bodyA"
    and "vformat messageB arglistB = Some bodyB"
    and "clock_ok (g_timestamp_printed s) nowA tA" and "clock_ok (g_timestamp_printed s) nowB tB"
  shows "\<exists>schedule r.
      interleave schedule
        (logging_log_prog vformat nowA moduleA levelA messageA arglistA)
        (logging_log_prog vformat nowB moduleB levelB messageB arglistB) s = Done ([], [], r)"
proof -
  let ?A = "logging_log_prog vformat nowA moduleA levelA messageA arglistA"
  let ?B = "logging_log_prog vformat nowB moduleB levelB messageB arglistB"
  from logging_log_ready [where vformat = vformat and message = messageA
      and arglist = arglistA and module = moduleA and level = levelA, OF assms(1,2,4)]
  obtain s1 where
    A: "run ?A s = Done s1" and s1: "ready s1 f m"
      "g_timestamp_printed s1 = g_timestamp_printed s"
    by (auto simp add: run_logging_log_prog)
  from assms(5) s1(2) have "clock_ok (g_timestamp_printed s1) nowB tB" by simp
  from logging_log_ready [where vformat = vformat and message = messageB
      and arglist = arglistB and module = moduleB and level = levelB, OF s1(1) assms(3) this]
  obtain s2 where
    B: "run ?B s1 = Done s2"
    by (auto simp add: run_logging_log_prog)
  from run_left [OF A] obtain n where
    n: "\<forall>rest q sch. interleave (replicate n True @ sch) (?A @ rest) q s
          = interleave sch rest q s1"
    by blast
  from run_right [OF B] obtain k where
    k: "\<forall>rest p sch. interleave (replicate k False @ sch) p (?B @ rest) s1
          = interleave sch p rest s2"
    by blast
  have "interleave (replicate n True @ (replicate k False @ [])) (?A @ []) (?B @ []) s
      = interleave (replicate k False @ []) [] (?B @ []) s1"
    using n by blast
  also have "\<dots> = interleave [] [] [] s2"
    using k by blast
  finally have "interleave (replicate n True @ replicate k False) ?A ?B s = Done ([], [], s2)"
    by simp
  then show ?thesis by blast
qed

section \<open>The severity filter\<close>

text \<open>
  Claim C1. A call of \<^verbatim>\<open>logging_log\<close> whose severity is numerically greater than the
  threshold returns the state it was given: no event is added to the trace (nothing is
  written, the mutex is not locked) and no variable changes. A call whose severity is at
  most the threshold, on a logger that is ready (destination set, mutex initialised and
  free) and with a format the formatter renders, returns, and what it adds to the trace
  is the events of exactly one message, whose bytes are one line of the output format.
  So for severities \<open>s1 > s2\<close>: when \<open>s1\<close> passes the filter, \<open>s2\<close> passes it too.
\<close>

theorem log_filter:
  "(uint (g_level s) < uint level \<longrightarrow>
      logging_log vformat now module level message arglist s = Done s)
   \<and> (uint level \<le> uint (g_level s) \<and> ready s f m \<and> vformat message arglist = Some body
        \<and> clock_ok (g_timestamp_printed s) now t \<longrightarrow>
      logging_log vformat now module level message arglist s =
        Done (s\<lparr>trace := trace s @
                 log_events f m (stamp_of (g_timestamp_printed s) t) module level body\<rparr>)
      \<and> written f (log_events f m (stamp_of (g_timestamp_printed s) t) module level body) =
          log_line (stamp_of (g_timestamp_printed s) t) module (uint level)
            (tier_label (uint level)) body)
   \<and> (uint level2 \<le> uint level \<and> uint level \<le> uint (g_level s) \<and> ready s f m
        \<and> vformat message arglist = Some body \<and> clock_ok (g_timestamp_printed s) now t \<longrightarrow>
      logging_log vformat now module level2 message arglist s =
        Done (s\<lparr>trace := trace s @
                 log_events f m (stamp_of (g_timestamp_printed s) t) module level2 body\<rparr>))"
  using logging_log_dropped [of s level vformat now module message arglist]
    logging_log_passes [of level s f m vformat message arglist body now t module]
    logging_log_passes [of level2 s f m vformat message arglist body now t module]
    written_log_events [of f m "stamp_of (g_timestamp_printed s) t" module level body]
  by auto

theorem log_filter_witness:
  "logging_log printf_sd (Some scenario_time) ''Net'' 50000 ''retry %d'' [Arg_d 3] scenario_state
     = Done scenario_state
   \<and> logging_log printf_sd (Some scenario_time) ''Net'' 100 ''conn failed: %s''
       [Arg_s ''timeout''] scenario_state
     = Done (scenario_state\<lparr>trace := trace scenario_state @
          [Mutex_lock 1, Write stdout ''[100:ERROR'', Write stdout ''@'',
           Write stdout ''03.10.2026/12:34:56'', Write stdout ''] '', Write stdout ''Net: '',
           Write stdout ''conn failed: timeout'', Write stdout newline, Mutex_unlock 1,
           Flush stdout]\<rparr>)
   \<and> logging_log printf_sd (Some scenario_time) ''Net'' 1 ''conn failed: %s''
       [Arg_s ''timeout''] scenario_state
     = Done (scenario_state\<lparr>trace := trace scenario_state @
          [Mutex_lock 1, Write stdout ''[1:CRITICAL'', Write stdout ''@'',
           Write stdout ''03.10.2026/12:34:56'', Write stdout ''] '', Write stdout ''Net: '',
           Write stdout ''conn failed: timeout'', Write stdout newline, Mutex_unlock 1,
           Flush stdout]\<rparr>)"
  using log_filter [of scenario_state 50000 printf_sd "Some scenario_time" "''Net''"
      "''retry %d''" "[Arg_d 3]" stdout 1 "''retry 3''" scenario_time 1]
    log_filter [of scenario_state 100 printf_sd "Some scenario_time" "''Net''"
      "''conn failed: %s''" "[Arg_s ''timeout'']" stdout 1 "''conn failed: timeout''"
      scenario_time 1]
  by (simp add: scenario_state_def scenario_time_def ready_def clock_ok_def INT_MAX_def
      stamp_of_def log_events_def tier_label_def timestamp_text_def fmt_d_def fmt_0d_def
      digits.simps digit_char_def LOGGING_LEVEL_DEBUG_def LOGGING_LEVEL_INFO_def
      LOGGING_LEVEL_WARNING_def LOGGING_LEVEL_ERROR_def)

section \<open>The tier of a severity\<close>

text \<open>
  Claim C2. For every severity, the tag that \<^verbatim>\<open>logging_log\<close> writes first (right after
  locking) is \<^verbatim>\<open>[<severity>:<label>\<close>, where the label is the highest tier of the
  specification's table whose lower bound is at most the severity: CRITICAL for 0 to 99,
  ERROR for 100 to 999, WARNING for 1000 to 9999, INFO for 10000 to 49999 and DEBUG for
  50000 to 65535; in particular at the ten boundary values.
\<close>

theorem tier_mapping:
  "(uint level \<le> uint (g_level s) \<and> ready s f m \<and> vformat message arglist = Some body
      \<and> clock_ok (g_timestamp_printed s) now t \<longrightarrow>
    (\<exists>rest.
       logging_log vformat now module level message arglist s =
         Done (s\<lparr>trace := trace s @
                  Mutex_lock m
                  # Write f (''['' @ fmt_d (uint level) @ '':'' @ tier_label (uint level))
                  # rest\<rparr>)))
   \<and> highest_tier (uint level) = Some (tier_label (uint level))
   \<and> tier_label (uint level) =
        (if uint level \<le> 99 then ''CRITICAL''
         else if uint level \<le> 999 then ''ERROR''
         else if uint level \<le> 9999 then ''WARNING''
         else if uint level \<le> 49999 then ''INFO''
         else ''DEBUG'')
   \<and> tier_label (uint (0 :: ushort)) = ''CRITICAL'' \<and> tier_label (uint (99 :: ushort)) = ''CRITICAL''
   \<and> tier_label (uint (100 :: ushort)) = ''ERROR'' \<and> tier_label (uint (999 :: ushort)) = ''ERROR''
   \<and> tier_label (uint (1000 :: ushort)) = ''WARNING''
   \<and> tier_label (uint (9999 :: ushort)) = ''WARNING''
   \<and> tier_label (uint (10000 :: ushort)) = ''INFO'' \<and> tier_label (uint (49999 :: ushort)) = ''INFO''
   \<and> tier_label (uint (50000 :: ushort)) = ''DEBUG''
   \<and> tier_label (uint (65535 :: ushort)) = ''DEBUG''"
proof -
  have label: "tier_label (uint level) =
      (if uint level \<le> 99 then ''CRITICAL''
       else if uint level \<le> 999 then ''ERROR''
       else if uint level \<le> 9999 then ''WARNING''
       else if uint level \<le> 49999 then ''INFO''
       else ''DEBUG'')"
    by (simp add: tier_label_def LOGGING_LEVEL_DEBUG_def LOGGING_LEVEL_INFO_def
        LOGGING_LEVEL_WARNING_def LOGGING_LEVEL_ERROR_def)
  have highest: "highest_tier (uint level) = Some (tier_label (uint level))"
    by (rule tier_label_highest) simp
  have run: "\<exists>rest. logging_log vformat now module level message arglist s =
         Done (s\<lparr>trace := trace s @
                  Mutex_lock m # Write f (''['' @ fmt_d (uint level) @ '':'' @ tier_label (uint level)) # rest\<rparr>)"
    if "uint level \<le> uint (g_level s)" "ready s f m" "vformat message arglist = Some body"
      "clock_ok (g_timestamp_printed s) now t"
  proof -
    have "logging_log vformat now module level message arglist s =
         Done (s\<lparr>trace := trace s @
                  Mutex_lock m # Write f (''['' @ fmt_d (uint level) @ '':'' @ tier_label (uint level))
                  # tl (tl (log_events f m (stamp_of (g_timestamp_printed s) t) module level body))\<rparr>)"
      using that logging_log_passes [of level s f m vformat message arglist body now t module]
      by (simp add: log_events_def)
    then show ?thesis by (rule exI)
  qed
  have points: "tier_label (uint (0 :: ushort)) = ''CRITICAL'' \<and> tier_label (uint (99 :: ushort)) = ''CRITICAL''
   \<and> tier_label (uint (100 :: ushort)) = ''ERROR'' \<and> tier_label (uint (999 :: ushort)) = ''ERROR''
   \<and> tier_label (uint (1000 :: ushort)) = ''WARNING''
   \<and> tier_label (uint (9999 :: ushort)) = ''WARNING''
   \<and> tier_label (uint (10000 :: ushort)) = ''INFO'' \<and> tier_label (uint (49999 :: ushort)) = ''INFO''
   \<and> tier_label (uint (50000 :: ushort)) = ''DEBUG''
   \<and> tier_label (uint (65535 :: ushort)) = ''DEBUG''"
    by (simp add: tier_label_def LOGGING_LEVEL_DEBUG_def LOGGING_LEVEL_INFO_def
        LOGGING_LEVEL_WARNING_def LOGGING_LEVEL_ERROR_def)
  show ?thesis
    by (intro conjI impI) (use label highest run points in \<open>simp_all only: simp_thms\<close>)
qed


theorem tier_mapping_witness:
  "(\<exists>rest.
      logging_log printf_sd (Some scenario_time) ''Net'' 65535 ''retry %d'' [Arg_d 3]
          (logging_set_level 65535 scenario_state) =
        Done (logging_set_level 65535 scenario_state
                \<lparr>trace := trace (logging_set_level 65535 scenario_state) @
                   Mutex_lock 1 # Write stdout ''[65535:DEBUG'' # rest\<rparr>))
   \<and> highest_tier 65535 = Some ''DEBUG''"
  using tier_mapping [of 65535 "logging_set_level 65535 scenario_state" stdout 1 printf_sd
      "''retry %d''" "[Arg_d 3]" "''retry 3''" "Some scenario_time" scenario_time "''Net''"]
  by (simp add: scenario_state_def scenario_time_def logging_set_level_def ready_def
      clock_ok_def INT_MAX_def fmt_d_def digits.simps digit_char_def tier_label_def
      LOGGING_LEVEL_DEBUG_def)

section \<open>The output line\<close>

text \<open>
  Claim C3. A call of \<^verbatim>\<open>logging_log\<close> that passes the filter on a ready logger returns;
  and whenever a call that passes the filter returns, the bytes it has written to the
  destination are exactly \<^verbatim>\<open>[<severity-int>:<TIER>\<close>, then \<^verbatim>\<open>@<timestamp>\<close> only if the
  timestamp flag is set, then \<^verbatim>\<open>] \<close>, \<^verbatim>\<open><module>: \<close>, the body the formatter renders from
  the format and its arguments, and a newline; it writes to no other stream.
\<close>

theorem line_format:
  "(uint level \<le> uint (g_level s) \<and> ready s f m \<and> vformat message arglist = Some body
      \<and> clock_ok (g_timestamp_printed s) now t \<longrightarrow>
    (\<exists>s'. logging_log vformat now module level message arglist s = Done s'))
   \<and> (uint level \<le> uint (g_level s)
       \<and> logging_log vformat now module level message arglist s = Done s' \<longrightarrow>
    (\<exists>f body t.
       g_destination s = Some f \<and> vformat message arglist = Some body
       \<and> (g_timestamp_printed s \<noteq> 0 \<longrightarrow> now = Some t)
       \<and> written f (trace s') =
           written f (trace s)
           @ ''['' @ fmt_d (uint level) @ '':'' @ tier_label (uint level)
           @ (if g_timestamp_printed s \<noteq> 0 then ''@'' @ timestamp_text t else [])
           @ ''] '' @ module @ '': '' @ body @ newline
       \<and> (\<forall>g. g \<noteq> f \<longrightarrow> written g (trace s') = written g (trace s))))"
proof (intro conjI impI)
  assume "uint level \<le> uint (g_level s) \<and> ready s f m \<and> vformat message arglist = Some body
      \<and> clock_ok (g_timestamp_printed s) now t"
  then show "\<exists>s'. logging_log vformat now module level message arglist s = Done s'"
    using logging_log_passes [of level s f m vformat message arglist body now t module] by simp
next
  assume a: "uint level \<le> uint (g_level s)
       \<and> logging_log vformat now module level message arglist s = Done s'"
  then obtain f m body t where r: "ready s f m" "vformat message arglist = Some body"
      "clock_ok (g_timestamp_printed s) now t"
    using logging_log_returns [of level s vformat now module message arglist s'] by blast
  with a have s': "s' = s\<lparr>trace := trace s @
                 log_events f m (stamp_of (g_timestamp_printed s) t) module level body\<rparr>"
    using logging_log_passes [of level s f m vformat message arglist body now t module] by simp
  have other: "written g (log_events f m stamp module level body) = []" if "g \<noteq> f" for g stamp
    using that by (simp add: log_events_def split: option.split)
  have "g_destination s = Some f" using r(1) by (simp add: ready_def)
  moreover have "g_timestamp_printed s \<noteq> 0 \<longrightarrow> now = Some t"
    using r(3) by (auto simp add: clock_ok_def)
  moreover have "written f (trace s') =
           written f (trace s)
           @ ''['' @ fmt_d (uint level) @ '':'' @ tier_label (uint level)
           @ (if g_timestamp_printed s \<noteq> 0 then ''@'' @ timestamp_text t else [])
           @ ''] '' @ module @ '': '' @ body @ newline"
    by (simp add: s' written_append written_log_events log_line_def stamp_of_def)
  moreover have "\<forall>g. g \<noteq> f \<longrightarrow> written g (trace s') = written g (trace s)"
    by (simp add: s' written_append other)
  ultimately show "\<exists>f body t.
       g_destination s = Some f \<and> vformat message arglist = Some body
       \<and> (g_timestamp_printed s \<noteq> 0 \<longrightarrow> now = Some t)
       \<and> written f (trace s') =
           written f (trace s)
           @ ''['' @ fmt_d (uint level) @ '':'' @ tier_label (uint level)
           @ (if g_timestamp_printed s \<noteq> 0 then ''@'' @ timestamp_text t else [])
           @ ''] '' @ module @ '': '' @ body @ newline
       \<and> (\<forall>g. g \<noteq> f \<longrightarrow> written g (trace s') = written g (trace s))"
    using r(2) by blast
qed


theorem line_format_witness:
  "\<exists>s'. logging_log printf_sd (Some scenario_time) ''Net'' 100 ''conn failed: %s''
           [Arg_s ''timeout''] scenario_state = Done s'
        \<and> written stdout (trace s') =
            ''[100:ERROR@03.10.2026/12:34:56] Net: conn failed: timeout'' @ newline"
proof -
  have pre: "uint (100 :: ushort) \<le> uint (g_level scenario_state) \<and> ready scenario_state stdout 1
      \<and> printf_sd ''conn failed: %s'' [Arg_s ''timeout''] = Some ''conn failed: timeout''
      \<and> clock_ok (g_timestamp_printed scenario_state) (Some scenario_time) scenario_time"
    by (simp add: scenario_state_def scenario_time_def ready_def clock_ok_def INT_MAX_def)
  then obtain s' where run: "logging_log printf_sd (Some scenario_time) ''Net'' 100
      ''conn failed: %s'' [Arg_s ''timeout''] scenario_state = Done s'"
    using line_format [of 100 scenario_state stdout 1 printf_sd "''conn failed: %s''"
        "[Arg_s ''timeout'']" "''conn failed: timeout''" "Some scenario_time" scenario_time
        "''Net''"]
    by blast
  have "written stdout (trace s') =
      ''[100:ERROR@03.10.2026/12:34:56] Net: conn failed: timeout'' @ newline"
    using pre run line_format [of 100 scenario_state stdout 1 printf_sd "''conn failed: %s''"
        "[Arg_s ''timeout'']" "''conn failed: timeout''" "Some scenario_time" scenario_time
        "''Net''" s']
    by (auto simp add: scenario_state_def scenario_time_def tier_label_def timestamp_text_def
        fmt_d_def fmt_0d_def digits.simps digit_char_def LOGGING_LEVEL_DEBUG_def
        LOGGING_LEVEL_INFO_def LOGGING_LEVEL_WARNING_def LOGGING_LEVEL_ERROR_def)
  with run show ?thesis by blast
qed

section \<open>The timestamp\<close>

text \<open>
  Claim C5. With the timestamp flag set, the line of an emitted message carries, between
  the tier and \<^verbatim>\<open>] \<close>, an \<^verbatim>\<open>@\<close> and the local time as \<^verbatim>\<open>DD.MM.YYYY/HH:MM:SS\<close>: for a
  calendar break-down (year 0 to 9999) the day, the month as \<^verbatim>\<open>tm_mon\<close> gives it
  (counted from 0: January is 00, November is 10), the hour, the minute and the second
  have two digits each, the year four, 19 characters in all. With the flag clear the
  line has no such segment, and the time is not read.
\<close>

theorem timestamp_segment:
  "(g_timestamp_printed s \<noteq> 0 \<and> uint level \<le> uint (g_level s) \<and> ready s f m
      \<and> vformat message arglist = Some body \<and> now = Some t \<and> calendar_time t \<longrightarrow>
    (\<exists>s'. logging_log vformat now module level message arglist s = Done s'
       \<and> written f (trace s') =
           written f (trace s)
           @ ''['' @ fmt_d (uint level) @ '':'' @ tier_label (uint level)
           @ ''@'' @ dd_mm_yyyy t @ ''] '' @ module @ '': '' @ body @ newline))
   \<and> (calendar_time t \<longrightarrow> timestamp_text t = dd_mm_yyyy t \<and> length (timestamp_text t) = 19)
   \<and> (calendar_time t \<and> tm_mon t = 0 \<longrightarrow> take 2 (drop 3 (timestamp_text t)) = ''00'')
   \<and> (calendar_time t \<and> tm_mon t = 10 \<longrightarrow> take 2 (drop 3 (timestamp_text t)) = ''10'')
   \<and> (g_timestamp_printed s = 0 \<and> uint level \<le> uint (g_level s) \<and> ready s f m
        \<and> vformat message arglist = Some body \<longrightarrow>
    (\<exists>s'. logging_log vformat now module level message arglist s = Done s'
       \<and> written f (trace s') =
           written f (trace s)
           @ ''['' @ fmt_d (uint level) @ '':'' @ tier_label (uint level)
           @ ''] '' @ module @ '': '' @ body @ newline))"
proof (intro conjI impI)
  assume a: "g_timestamp_printed s \<noteq> 0 \<and> uint level \<le> uint (g_level s) \<and> ready s f m
      \<and> vformat message arglist = Some body \<and> now = Some t \<and> calendar_time t"
  then have "clock_ok (g_timestamp_printed s) now t"
    by (simp add: clock_ok_def calendar_time_def INT_MAX_def)
  with a show "\<exists>s'. logging_log vformat now module level message arglist s = Done s'
       \<and> written f (trace s') =
           written f (trace s)
           @ ''['' @ fmt_d (uint level) @ '':'' @ tier_label (uint level)
           @ ''@'' @ dd_mm_yyyy t @ ''] '' @ module @ '': '' @ body @ newline"
    using logging_log_passes [of level s f m vformat message arglist body now t module]
    by (simp add: written_append written_log_events log_line_def stamp_of_def
        timestamp_text_calendar)
next
  assume "calendar_time t"
  then show "timestamp_text t = dd_mm_yyyy t" by (rule timestamp_text_calendar)
next
  assume "calendar_time t"
  then show "length (timestamp_text t) = 19"
    by (simp add: timestamp_text_calendar dd_mm_yyyy_def two_digits_def four_digits_def)
next
  assume "calendar_time t \<and> tm_mon t = 0"
  then show "take 2 (drop 3 (timestamp_text t)) = ''00''"
    by (simp add: timestamp_text_calendar dd_mm_yyyy_def two_digits_def four_digits_def
        digit_char_def)
next
  assume "calendar_time t \<and> tm_mon t = 10"
  then show "take 2 (drop 3 (timestamp_text t)) = ''10''"
    by (simp add: timestamp_text_calendar dd_mm_yyyy_def two_digits_def four_digits_def
        digit_char_def)
next
  assume a: "g_timestamp_printed s = 0 \<and> uint level \<le> uint (g_level s) \<and> ready s f m
        \<and> vformat message arglist = Some body"
  then have "clock_ok (g_timestamp_printed s) now t"
    by (simp add: clock_ok_def)
  with a show "\<exists>s'. logging_log vformat now module level message arglist s = Done s'
       \<and> written f (trace s') =
           written f (trace s)
           @ ''['' @ fmt_d (uint level) @ '':'' @ tier_label (uint level)
           @ ''] '' @ module @ '': '' @ body @ newline"
    using logging_log_passes [of level s f m vformat message arglist body now t module]
    by (simp add: written_append written_log_events log_line_def stamp_of_def)
qed


theorem timestamp_segment_witness:
  "(\<exists>s'. logging_log printf_sd (Some scenario_time) ''Net'' 100 ''conn failed: %s''
            [Arg_s ''timeout''] scenario_state = Done s'
         \<and> written stdout (trace s') =
             ''[100:ERROR@03.10.2026/12:34:56] Net: conn failed: timeout'' @ newline)
   \<and> timestamp_text scenario_time = ''03.10.2026/12:34:56''
   \<and> timestamp_text (scenario_time\<lparr>tm_mon := 0\<rparr>) = ''03.00.2026/12:34:56''
   \<and> (\<exists>s'. logging_log printf_sd None ''Net'' 100 ''conn failed: %s''
            [Arg_s ''timeout''] (logging_set_timestamp_printed 0 scenario_state) = Done s'
         \<and> written stdout (trace s') = ''[100:ERROR] Net: conn failed: timeout'' @ newline)"
proof -
  have cal: "calendar_time scenario_time" "calendar_time (scenario_time\<lparr>tm_mon := 0\<rparr>)"
    by (simp_all add: calendar_time_def scenario_time_def)
  have stamp: "dd_mm_yyyy scenario_time = ''03.10.2026/12:34:56''"
      "dd_mm_yyyy (scenario_time\<lparr>tm_mon := 0\<rparr>) = ''03.00.2026/12:34:56''"
    by (simp_all add: dd_mm_yyyy_def two_digits_def four_digits_def scenario_time_def
        digit_char_def)
  show ?thesis
    using timestamp_segment [where s = scenario_state and level = 100 and f = stdout and m = 1
        and vformat = printf_sd and message = "''conn failed: %s''"
        and arglist = "[Arg_s ''timeout'']" and body = "''conn failed: timeout''"
        and now = "Some scenario_time" and t = scenario_time and module = "''Net''"]
      timestamp_segment [where s = scenario_state and level = 100 and f = stdout and m = 1
        and vformat = printf_sd and message = "''conn failed: %s''"
        and arglist = "[Arg_s ''timeout'']" and body = "''conn failed: timeout''"
        and now = "Some scenario_time" and t = "scenario_time\<lparr>tm_mon := 0\<rparr>"
        and module = "''Net''"]
      timestamp_segment [where s = "logging_set_timestamp_printed 0 scenario_state"
        and level = 100 and f = stdout and m = 1
        and vformat = printf_sd and message = "''conn failed: %s''"
        and arglist = "[Arg_s ''timeout'']" and body = "''conn failed: timeout''"
        and now = None and t = scenario_time and module = "''Net''"]
    by (simp add: cal stamp scenario_state_def ready_def logging_set_timestamp_printed_def
        fmt_d_def digits.simps digit_char_def tier_label_def LOGGING_LEVEL_DEBUG_def
        LOGGING_LEVEL_INFO_def LOGGING_LEVEL_WARNING_def LOGGING_LEVEL_ERROR_def)
qed

section \<open>Handing the stream to an external writer\<close>

text \<open>
  Claim C4. \<^verbatim>\<open>logging_aquire_fd\<close> with a severity above the threshold returns \<^verbatim>\<open>NULL\<close>
  and the state it was given (no lock, no output). Otherwise, on a ready logger, it first
  emits one line through \<^verbatim>\<open>logging_log\<close> with the module \<^verbatim>\<open>Logging\<close>, then locks the
  mutex, and returns the destination; and whenever it returns with a severity that
  passes the filter, what it returns is the destination and is not \<^verbatim>\<open>NULL\<close>.
\<close>

theorem acquire_writer:
  "(uint (g_level s) < uint level \<longrightarrow>
      logging_aquire_fd vformat no_args now level s = Done (None, s))
   \<and> (uint level \<le> uint (g_level s) \<and> ready s f m
        \<and> vformat ''*** External logging started...'' no_args = Some body
        \<and> clock_ok (g_timestamp_printed s) now t \<longrightarrow>
      logging_log vformat now ''Logging'' level ''*** External logging started...'' no_args s =
        Done (s\<lparr>trace := trace s @
                 log_events f m (stamp_of (g_timestamp_printed s) t) ''Logging'' level body\<rparr>)
      \<and> logging_aquire_fd vformat no_args now level s =
          Done (Some f,
                s\<lparr>mutexes := (mutexes s)(m \<mapsto> True),
                  trace := trace s
                    @ log_events f m (stamp_of (g_timestamp_printed s) t) ''Logging'' level body
                    @ [Mutex_lock m]\<rparr>))
   \<and> (uint level \<le> uint (g_level s)
        \<and> logging_aquire_fd vformat no_args now level s = Done (r, s') \<longrightarrow>
      r \<noteq> None \<and> r = g_destination s)"
proof (intro conjI impI)
  assume "uint (g_level s) < uint level"
  then show "logging_aquire_fd vformat no_args now level s = Done (None, s)"
    by (simp add: logging_aquire_fd_def)
next
  assume a: "uint level \<le> uint (g_level s) \<and> ready s f m
        \<and> vformat ''*** External logging started...'' no_args = Some body
        \<and> clock_ok (g_timestamp_printed s) now t"
  then show "logging_log vformat now ''Logging'' level ''*** External logging started...''
        no_args s =
        Done (s\<lparr>trace := trace s @
                 log_events f m (stamp_of (g_timestamp_printed s) t) ''Logging'' level body\<rparr>)"
    using logging_log_passes [of level s f m vformat "''*** External logging started...''"
        no_args body now t "''Logging''"] by simp
  from a show "logging_aquire_fd vformat no_args now level s =
          Done (Some f,
                s\<lparr>mutexes := (mutexes s)(m \<mapsto> True),
                  trace := trace s
                    @ log_events f m (stamp_of (g_timestamp_printed s) t) ''Logging'' level body
                    @ [Mutex_lock m]\<rparr>)"
    using logging_aquire_fd_passes [of level s f m vformat no_args body now t] by simp
next
  assume a: "uint level \<le> uint (g_level s)
        \<and> logging_aquire_fd vformat no_args now level s = Done (r, s')"
  then obtain f m body t where r: "ready s f m"
      "vformat ''*** External logging started...'' no_args = Some body"
      "clock_ok (g_timestamp_printed s) now t"
    using logging_aquire_fd_returns [of level s vformat no_args now r s'] by blast
  with a have "r = Some f"
    using logging_aquire_fd_passes [of level s f m vformat no_args body now t] by simp
  with r(1) show "r \<noteq> None" "r = g_destination s" by (simp_all add: ready_def)
qed

theorem acquire_writer_witness:
  "logging_aquire_fd printf_sd [] (Some scenario_time) 50000 scenario_state
     = Done (None, scenario_state)
   \<and> logging_aquire_fd printf_sd [] (Some scenario_time) 100 scenario_state
     = Done (Some stdout,
         scenario_state\<lparr>mutexes := [1 \<mapsto> True],
           trace := trace scenario_state @
             [Mutex_lock 1, Write stdout ''[100:ERROR'', Write stdout ''@'',
              Write stdout ''03.10.2026/12:34:56'', Write stdout ''] '',
              Write stdout ''Logging: '', Write stdout ''*** External logging started...'',
              Write stdout newline, Mutex_unlock 1, Flush stdout, Mutex_lock 1]\<rparr>)
   \<and> Some stdout = g_destination scenario_state"
proof -
  let ?s' = "scenario_state\<lparr>mutexes := [1 \<mapsto> True],
           trace := trace scenario_state @
             [Mutex_lock 1, Write stdout ''[100:ERROR'', Write stdout ''@'',
              Write stdout ''03.10.2026/12:34:56'', Write stdout ''] '',
              Write stdout ''Logging: '', Write stdout ''*** External logging started...'',
              Write stdout newline, Mutex_unlock 1, Flush stdout, Mutex_lock 1]\<rparr>"
  have dropped: "logging_aquire_fd printf_sd [] (Some scenario_time) 50000 scenario_state
     = Done (None, scenario_state)"
    using acquire_writer [where s = scenario_state and level = 50000 and vformat = printf_sd
        and no_args = "[]" and now = "Some scenario_time" and f = stdout and m = 1
        and body = "''*** External logging started...''" and t = scenario_time
        and r = None and s' = scenario_state]
    by (simp add: scenario_state_def)
  have passed: "logging_aquire_fd printf_sd [] (Some scenario_time) 100 scenario_state
     = Done (Some stdout, ?s')"
    using acquire_writer [where s = scenario_state and level = 100 and vformat = printf_sd
        and no_args = "[]" and now = "Some scenario_time" and f = stdout and m = 1
        and body = "''*** External logging started...''" and t = scenario_time
        and r = None and s' = scenario_state]
    by (simp add: scenario_state_def scenario_time_def ready_def clock_ok_def INT_MAX_def
      stamp_of_def log_events_def tier_label_def timestamp_text_def fmt_d_def fmt_0d_def
      digits.simps digit_char_def LOGGING_LEVEL_DEBUG_def LOGGING_LEVEL_INFO_def
      LOGGING_LEVEL_WARNING_def LOGGING_LEVEL_ERROR_def)
  have "Some stdout = g_destination scenario_state"
    using passed acquire_writer [where s = scenario_state and level = 100
        and vformat = printf_sd and no_args = "[]" and now = "Some scenario_time"
        and r = "Some stdout" and s' = ?s']
    by (simp add: scenario_state_def)
  with dropped passed show ?thesis by simp
qed

text \<open>
  Claim C10. \<^verbatim>\<open>logging_release_fd\<close> unlocks the mutex first, whatever the severity, and
  then calls \<^verbatim>\<open>logging_log\<close> for the closing line, which is filtered against the
  threshold of that moment: with a severity above it the mutex is released and nothing is
  written; with a severity that passes, the closing line follows the unlock. So a writer
  that acquires the stream, after which the threshold is lowered below its severity,
  and then releases it, leaves the opening line in the output with no closing line, and
  the mutex free.
\<close>

theorem release_writer:
  "(g_print_mutex s = Some m \<and> mutexes s m = Some True \<and> uint (g_level s) < uint level \<longrightarrow>
      logging_release_fd vformat no_args now level s =
        Done (s\<lparr>mutexes := (mutexes s)(m \<mapsto> False), trace := trace s @ [Mutex_unlock m]\<rparr>))
   \<and> (g_print_mutex s = Some m \<and> mutexes s m = Some True \<and> uint level \<le> uint (g_level s)
        \<and> g_destination s = Some f
        \<and> vformat ''*** External logging ended...'' no_args = Some body
        \<and> clock_ok (g_timestamp_printed s) now t \<longrightarrow>
      logging_release_fd vformat no_args now level s =
        Done (s\<lparr>mutexes := (mutexes s)(m \<mapsto> False),
                trace := trace s @ Mutex_unlock m
                  # log_events f m (stamp_of (g_timestamp_printed s) t) ''Logging'' level body\<rparr>))
   \<and> (ready s0 f m \<and> uint level \<le> uint (g_level s0) \<and> uint lowered < uint level
        \<and> vformat ''*** External logging started...'' no_args = Some body0
        \<and> clock_ok (g_timestamp_printed s0) now0 t0 \<longrightarrow>
      (\<exists>s1 s2.
         logging_aquire_fd vformat no_args now0 level s0 = Done (Some f, s1)
         \<and> logging_release_fd vformat no_args now level (logging_set_level lowered s1) = Done s2
         \<and> mutexes s2 m = Some False
         \<and> written f (trace s2) =
             written f (trace s0)
             @ log_line (stamp_of (g_timestamp_printed s0) t0) ''Logging'' (uint level)
                 (tier_label (uint level)) body0))"
proof (intro conjI impI)
  assume "g_print_mutex s = Some m \<and> mutexes s m = Some True \<and> uint (g_level s) < uint level"
  then show "logging_release_fd vformat no_args now level s =
        Done (s\<lparr>mutexes := (mutexes s)(m \<mapsto> False), trace := trace s @ [Mutex_unlock m]\<rparr>)"
    using logging_release_fd_dropped [of s m level vformat no_args now] by simp
next
  assume "g_print_mutex s = Some m \<and> mutexes s m = Some True \<and> uint level \<le> uint (g_level s)
        \<and> g_destination s = Some f
        \<and> vformat ''*** External logging ended...'' no_args = Some body
        \<and> clock_ok (g_timestamp_printed s) now t"
  then show "logging_release_fd vformat no_args now level s =
        Done (s\<lparr>mutexes := (mutexes s)(m \<mapsto> False),
                trace := trace s @ Mutex_unlock m
                  # log_events f m (stamp_of (g_timestamp_printed s) t) ''Logging'' level body\<rparr>)"
    using logging_release_fd_passes [of s m level f vformat no_args body now t] by simp
next
  assume a: "ready s0 f m \<and> uint level \<le> uint (g_level s0) \<and> uint lowered < uint level
        \<and> vformat ''*** External logging started...'' no_args = Some body0
        \<and> clock_ok (g_timestamp_printed s0) now0 t0"
  let ?opening = "log_events f m (stamp_of (g_timestamp_printed s0) t0) ''Logging'' level body0"
  let ?s1 = "s0\<lparr>mutexes := (mutexes s0)(m \<mapsto> True),
      trace := trace s0 @ ?opening @ [Mutex_lock m]\<rparr>"
  let ?s1' = "logging_set_level lowered ?s1"
  let ?s2 = "?s1'\<lparr>mutexes := (mutexes ?s1')(m \<mapsto> False),
      trace := trace ?s1' @ [Mutex_unlock m]\<rparr>"
  have acquire: "logging_aquire_fd vformat no_args now0 level s0 = Done (Some f, ?s1)"
    using a logging_aquire_fd_passes [of level s0 f m vformat no_args body0 now0 t0] by simp
  have "g_print_mutex ?s1' = Some m" "mutexes ?s1' m = Some True"
      "uint (g_level ?s1') < uint level"
    using a by (simp_all add: logging_set_level_def ready_def)
  then have release: "logging_release_fd vformat no_args now level ?s1' = Done ?s2"
    by (rule logging_release_fd_dropped)
  have free: "mutexes ?s2 m = Some False" by simp
  have out: "written f (trace ?s2) =
             written f (trace s0)
             @ log_line (stamp_of (g_timestamp_printed s0) t0) ''Logging'' (uint level)
                 (tier_label (uint level)) body0"
    by (simp add: logging_set_level_def written_append written_log_events)
  from acquire release free out
  show "\<exists>s1 s2.
         logging_aquire_fd vformat no_args now0 level s0 = Done (Some f, s1)
         \<and> logging_release_fd vformat no_args now level (logging_set_level lowered s1) = Done s2
         \<and> mutexes s2 m = Some False
         \<and> written f (trace s2) =
             written f (trace s0)
             @ log_line (stamp_of (g_timestamp_printed s0) t0) ''Logging'' (uint level)
                 (tier_label (uint level)) body0"
    by blast
qed


theorem release_writer_witness:
  "logging_release_fd printf_sd [] (Some scenario_time) 50000
       (scenario_state\<lparr>mutexes := [1 \<mapsto> True]\<rparr>)
     = Done (scenario_state\<lparr>mutexes := [1 \<mapsto> False],
               trace := trace scenario_state @ [Mutex_unlock 1]\<rparr>)
   \<and> logging_release_fd printf_sd [] (Some scenario_time) 100
       (scenario_state\<lparr>mutexes := [1 \<mapsto> True]\<rparr>)
     = Done (scenario_state\<lparr>mutexes := [1 \<mapsto> False],
               trace := trace scenario_state @
                 [Mutex_unlock 1, Mutex_lock 1, Write stdout ''[100:ERROR'', Write stdout ''@'',
                  Write stdout ''03.10.2026/12:34:56'', Write stdout ''] '',
                  Write stdout ''Logging: '', Write stdout ''*** External logging ended...'',
                  Write stdout newline, Mutex_unlock 1, Flush stdout]\<rparr>)
   \<and> (\<exists>s1 s2.
         logging_aquire_fd printf_sd [] (Some scenario_time) 100 scenario_state
           = Done (Some stdout, s1)
         \<and> logging_release_fd printf_sd [] (Some scenario_time) 100 (logging_set_level 10 s1)
           = Done s2
         \<and> mutexes s2 1 = Some False
         \<and> written stdout (trace s2) =
             ''[100:ERROR@03.10.2026/12:34:56] Logging: *** External logging started...''
             @ newline)"
  using release_writer [where s = "scenario_state\<lparr>mutexes := [1 \<mapsto> True]\<rparr>" and m = 1
      and level = 50000 and vformat = printf_sd and no_args = "[]"
      and now = "Some scenario_time" and f = stdout
      and body = "''*** External logging ended...''" and t = scenario_time
      and ?s0.0 = scenario_state and lowered = 10
      and ?body0.0 = "''*** External logging started...''" and ?now0.0 = "Some scenario_time"
      and ?t0.0 = scenario_time]
    release_writer [where s = "scenario_state\<lparr>mutexes := [1 \<mapsto> True]\<rparr>" and m = 1
      and level = 100 and vformat = printf_sd and no_args = "[]"
      and now = "Some scenario_time" and f = stdout
      and body = "''*** External logging ended...''" and t = scenario_time
      and ?s0.0 = scenario_state and lowered = 10
      and ?body0.0 = "''*** External logging started...''" and ?now0.0 = "Some scenario_time"
      and ?t0.0 = scenario_time]
  by (simp add: scenario_state_def scenario_time_def ready_def clock_ok_def INT_MAX_def
      stamp_of_def log_events_def log_line_def tier_label_def timestamp_text_def fmt_d_def
      fmt_0d_def digits.simps digit_char_def LOGGING_LEVEL_DEBUG_def LOGGING_LEVEL_INFO_def
      LOGGING_LEVEL_WARNING_def LOGGING_LEVEL_ERROR_def)

section \<open>The destination\<close>

text \<open>
  Claim C7. \<^verbatim>\<open>logging_set_destination\<close> with \<^verbatim>\<open>NULL\<close> changes nothing, so that
  \<^verbatim>\<open>logging_get_destination\<close> returns what it returned before; with a stream that is not
  \<^verbatim>\<open>NULL\<close>, \<^verbatim>\<open>logging_get_destination\<close> then returns that stream.
\<close>

theorem null_destination_ignored:
  "logging_set_destination None s = s
   \<and> logging_get_destination (logging_set_destination None s) = logging_get_destination s
   \<and> (dest \<noteq> None \<longrightarrow>
        logging_get_destination (logging_set_destination dest s) = dest)"
  by (simp add: logging_set_destination_def logging_get_destination_def)

theorem null_destination_ignored_witness:
  "logging_get_destination (logging_set_destination None scenario_state) = Some stdout
   \<and> logging_get_destination (logging_set_destination (Some stderr) scenario_state)
       = Some stderr
   \<and> logging_get_destination
         (logging_set_destination None (logging_set_destination (Some (stream 3)) scenario_state))
       = Some (stream 3)"
  using null_destination_ignored [of scenario_state "Some stderr"]
    null_destination_ignored [of scenario_state "Some (stream 3)"]
    null_destination_ignored [of "logging_set_destination (Some (stream 3)) scenario_state" None]
  by (simp add: logging_get_destination_def scenario_state_def)

section \<open>Initialisation\<close>

text \<open>
  Claim C6. After \<^verbatim>\<open>logging_init\<close> as the first operation of the program (its
  allocation succeeding) the destination is the standard output, the threshold is 65535,
  the timestamp flag is on and the mutex is allocated and initialised. But the flag is
  on there only through its static initialiser: \<^verbatim>\<open>logging_init\<close>, whose comment says
  that it initialises all global variables of the subsystem, assigns \<^verbatim>\<open>_destination\<close>
  and \<^verbatim>\<open>_level\<close> and not \<^verbatim>\<open>_timestamp_printed\<close>. Run again, after the three setters
  have changed the threshold, the destination and the flag, it puts the threshold and
  the destination back to their defaults and leaves the flag off.
\<close>

theorem init_leaves_timestamp_flag:
  "logging_init (Some 1) initial_state =
     Done \<lparr>g_level = 65535, g_timestamp_printed = 1, g_destination = Some stdout,
           g_print_mutex = Some 1, mutexes = [1 \<mapsto> False], trace = [Mutex_init 1]\<rparr>
   \<and> logging_init (Some 2)
        (logging_set_timestamp_printed 0
          (logging_set_destination (Some stderr)
            (logging_set_level 0
              \<lparr>g_level = 65535, g_timestamp_printed = 1, g_destination = Some stdout,
                 g_print_mutex = Some 1, mutexes = [1 \<mapsto> False],
                 trace = [Mutex_init 1]\<rparr>))) =
     Done \<lparr>g_level = 65535, g_timestamp_printed = 0, g_destination = Some stdout,
           g_print_mutex = Some 2, mutexes = [1 \<mapsto> False, 2 \<mapsto> False],
           trace = [Mutex_init 1, Mutex_init 2]\<rparr>"
  by (simp add: logging_init_def pthread_mutex_init_def emit_def initial_state_def
      logging_set_timestamp_printed_def logging_set_destination_def logging_set_level_def
      LOGGING_LEVEL_ALL_def)



section \<open>Two calls at the same time\<close>

text \<open>
  Claim C9. Two threads each run one call of \<^verbatim>\<open>logging_log\<close> on a ready logger, their
  library calls interleaved in any order a schedule gives. The run never leaves defined
  behaviour, and whenever both calls have finished, what has been written to the
  destination is the line of one call followed by the line of the other, each complete
  (a call that the filter drops has no line): no byte of one line stands inside the
  other. And there is a schedule under which both calls finish.
\<close>

theorem concurrent_lines:
  "ready s f m \<and> vformat messageA arglistA = Some bodyA \<and> vformat messageB arglistB = Some bodyB
     \<and> clock_ok (g_timestamp_printed s) nowA tA \<and> clock_ok (g_timestamp_printed s) nowB tB
   \<longrightarrow>
   (\<exists>p q r.
      interleave schedule
        (logging_log_prog vformat nowA moduleA levelA messageA arglistA)
        (logging_log_prog vformat nowB moduleB levelB messageB arglistB) s = Done (p, q, r)
      \<and> (p = [] \<and> q = [] \<longrightarrow>
           written f (trace r) =
             written f (trace s) @ emitted_line s tA moduleA levelA bodyA
               @ emitted_line s tB moduleB levelB bodyB
           \<or> written f (trace r) =
             written f (trace s) @ emitted_line s tB moduleB levelB bodyB
               @ emitted_line s tA moduleA levelA bodyA))
   \<and> (\<exists>finishing r.
        interleave finishing
          (logging_log_prog vformat nowA moduleA levelA messageA arglistA)
          (logging_log_prog vformat nowB moduleB levelB messageB arglistB) s = Done ([], [], r))"
proof
  assume a: "ready s f m \<and> vformat messageA arglistA = Some bodyA
     \<and> vformat messageB arglistB = Some bodyB
     \<and> clock_ok (g_timestamp_printed s) nowA tA \<and> clock_ok (g_timestamp_printed s) nowB tB"
  let ?A = "logging_log_prog vformat nowA moduleA levelA messageA arglistA"
  let ?B = "logging_log_prog vformat nowB moduleB levelB messageB arglistB"
  let ?lineA = "emitted_line s tA moduleA levelA bodyA"
  let ?lineB = "emitted_line s tB moduleB levelB bodyB"
  from a have dest: "g_destination s = Some f" and mutex: "g_print_mutex s = Some m"
    and free: "mutexes s m = Some False"
    by (simp_all add: ready_def)
  have A: "thread_at s f ?lineA ?A Before ?lineA"
    using a dest by (intro logging_log_prog_thread) simp_all
  have B: "thread_at s f ?lineB ?B Before ?lineB"
    using a dest by (intro logging_log_prog_thread) simp_all
  have "exclusion s f m ?lineA ?lineB ?A ?B s"
    unfolding exclusion_def
    using A B free by (auto simp add: same_config_def serial_def)
  then obtain p q r where run: "interleave schedule ?A ?B s = Done (p, q, r)"
    and inv: "exclusion s f m ?lineA ?lineB p q r"
    using exclusion_interleave [OF _ dest mutex] by blast
  have "written f (trace r) = written f (trace s) @ ?lineA @ ?lineB
      \<or> written f (trace r) = written f (trace s) @ ?lineB @ ?lineA"
    if "p = [] \<and> q = []"
    using that inv exclusion_finished [of s f m ?lineA ?lineB r] by (simp add: serial_def)
  with run have safe: "\<exists>p q r. interleave schedule ?A ?B s = Done (p, q, r)
      \<and> (p = [] \<and> q = [] \<longrightarrow>
           written f (trace r) = written f (trace s) @ ?lineA @ ?lineB
           \<or> written f (trace r) = written f (trace s) @ ?lineB @ ?lineA)"
    by blast
  have live: "\<exists>finishing r. interleave finishing ?A ?B s = Done ([], [], r)"
    using a both_finish [where vformat = vformat and messageA = messageA
        and arglistA = arglistA and messageB = messageB and arglistB = arglistB
        and s = s and f = f and m = m and bodyA = bodyA and bodyB = bodyB
        and nowA = nowA and nowB = nowB and tA = tA and tB = tB]
    by blast
  from safe live show "(\<exists>p q r. interleave schedule ?A ?B s = Done (p, q, r)
      \<and> (p = [] \<and> q = [] \<longrightarrow>
           written f (trace r) = written f (trace s) @ ?lineA @ ?lineB
           \<or> written f (trace r) = written f (trace s) @ ?lineB @ ?lineA))
    \<and> (\<exists>finishing r. interleave finishing ?A ?B s = Done ([], [], r))"
    by (rule conjI)
qed

theorem concurrent_lines_witness:
  "(\<exists>r. interleave
          
            [True, False, True, False, True, False, True, True, True, True, True, True, True, True, True, False, False, False, False, False, False, False, False, False, False, False]
          (logging_log_prog printf_sd (Some scenario_time) ''Net'' 100 ''conn failed: %s''
             [Arg_s ''timeout''])
          (logging_log_prog printf_sd (Some scenario_time) ''Disk'' 1000 ''retry %d'' [Arg_d 3])
          scenario_state = Done ([], [], r)
        \<and> written stdout (trace r) =
            ''[100:ERROR@03.10.2026/12:34:56] Net: conn failed: timeout'' @ newline
            @ ''[1000:WARNING@03.10.2026/12:34:56] Disk: retry 3'' @ newline)
   \<and> (\<exists>r. interleave
          
            [True, False, False, True, False, True, False, False, False, False, False, False, False, False, False, False, True, True, True, True, True, True, True, True, True, True, True]
          (logging_log_prog printf_sd (Some scenario_time) ''Net'' 100 ''conn failed: %s''
             [Arg_s ''timeout''])
          (logging_log_prog printf_sd (Some scenario_time) ''Disk'' 1000 ''retry %d'' [Arg_d 3])
          scenario_state = Done ([], [], r)
        \<and> written stdout (trace r) =
            ''[1000:WARNING@03.10.2026/12:34:56] Disk: retry 3'' @ newline
            @ ''[100:ERROR@03.10.2026/12:34:56] Net: conn failed: timeout'' @ newline)"
  using concurrent_lines [where s = scenario_state and f = stdout and m = 1
      and vformat = printf_sd and messageA = "''conn failed: %s''"
      and arglistA = "[Arg_s ''timeout'']" and bodyA = "''conn failed: timeout''"
      and messageB = "''retry %d''" and arglistB = "[Arg_d 3]" and bodyB = "''retry 3''"
      and nowA = "Some scenario_time" and tA = scenario_time
      and nowB = "Some scenario_time" and tB = scenario_time
      and moduleA = "''Net''" and levelA = 100 and moduleB = "''Disk''" and levelB = 1000
      and schedule = "[True, False, True, False, True, False, True, True, True, True, True, True, True, True, True, False, False, False, False, False, False, False, False, False, False, False]"]
    concurrent_lines [where s = scenario_state and f = stdout and m = 1
      and vformat = printf_sd and messageA = "''conn failed: %s''"
      and arglistA = "[Arg_s ''timeout'']" and bodyA = "''conn failed: timeout''"
      and messageB = "''retry %d''" and arglistB = "[Arg_d 3]" and bodyB = "''retry 3''"
      and nowA = "Some scenario_time" and tA = scenario_time
      and nowB = "Some scenario_time" and tB = scenario_time
      and moduleA = "''Net''" and levelA = 100 and moduleB = "''Disk''" and levelB = 1000
      and schedule = "[True, False, False, True, False, True, False, False, False, False, False, False, False, False, False, False, True, True, True, True, True, True, True, True, True, True, True]"]
  by (simp add: logging_log_prog_def scenario_state_def scenario_time_def ready_def
      clock_ok_def INT_MAX_def fprintf_def fflush_def vfprintf_def timestamp_print_def
      pthread_mutex_lock_def pthread_mutex_unlock_def emit_def timestamp_text_def
      fmt_d_def fmt_0d_def digits.simps digit_char_def
      LOGGING_LEVEL_DEBUG_def LOGGING_LEVEL_INFO_def LOGGING_LEVEL_WARNING_def
      LOGGING_LEVEL_ERROR_def)

end
